theory Spec2Isabelle
  imports Main
begin

section \<open>The docker-proxy entry point (packages/docker-proxy/main.ts)\<close>

text \<open>
  The entry point reads its configuration from the process environment, logs it, and then
  either performs one connection check (check-only mode) or starts the steady-state
  services. The functions of \<^verbatim>\<open>main.ts\<close> are translated below; what \<^verbatim>\<open>main.ts\<close>
  imports from other modules and from Node.js is gathered in the record \<open>platform\<close> and
  passed in as a parameter.
\<close>

subsection \<open>JavaScript values used by the entry point\<close>

text \<open>\<^verbatim>\<open>process.env\<close>: a variable is unset (\<open>None\<close>) or holds a string.\<close>

type_synonym env = "string \<rightharpoonup> string"

text \<open>
  Truthiness of \<^verbatim>\<open>process.env.X\<close>: \<^verbatim>\<open>undefined\<close> and the empty string are falsy,
  every other string is truthy. \<^verbatim>\<open>Boolean(v)\<close>, \<^verbatim>\<open>v || d\<close>, \<^verbatim>\<open>filter(Boolean)\<close> and
  \<^verbatim>\<open>v ? a : b\<close> all test it.
\<close>

definition truthy :: "string option \<Rightarrow> bool" where
  "truthy v = (case v of None \<Rightarrow> False | Some s \<Rightarrow> s \<noteq> [])"

text \<open>\<^verbatim>\<open>v || d\<close> on strings.\<close>

definition js_or :: "string option \<Rightarrow> string \<Rightarrow> string" where
  "js_or v d = (case v of None \<Rightarrow> d | Some s \<Rightarrow> if s \<noteq> [] then s else d)"

text \<open>\<^verbatim>\<open>v ?? d\<close>: only \<^verbatim>\<open>undefined\<close> is replaced.\<close>

definition js_nullish :: "string option \<Rightarrow> string \<Rightarrow> string" where
  "js_nullish v d = (case v of None \<Rightarrow> d | Some s \<Rightarrow> s)"

text \<open>\<^verbatim>\<open>v || undefined\<close>.\<close>

definition js_or_undefined :: "string option \<Rightarrow> string option" where
  "js_or_undefined v = (if truthy v then v else None)"

text \<open>\<^verbatim>\<open>[v].filter(Boolean)\<close>: the one-element array, filtered by truthiness.\<close>

definition filter_Boolean :: "string option list \<Rightarrow> string list" where
  "filter_Boolean vs = map the (filter truthy vs)"

text \<open>
  A JavaScript \<^verbatim>\<open>Error\<close> object: the fields the entry point reads.
  \<^verbatim>\<open>stack\<close> may be \<^verbatim>\<open>undefined\<close>.
\<close>

record js_error =
  name :: string
  message :: string
  stack :: "string option"

text \<open>\<^verbatim>\<open>Error.prototype.toString\<close> (ECMAScript 20.5.3.4).\<close>

definition toString :: "js_error \<Rightarrow> string" where
  "toString e =
     (if name e = [] then message e
      else if message e = [] then name e
      else name e @ '': '' @ message e)"

subsection \<open>What the entry point imports\<close>

text \<open>
  \<^verbatim>\<open>parseSshUrl\<close>, \<^verbatim>\<open>formatPublicKey\<close> (module \<^verbatim>\<open>./src/ssh\<close>), \<^verbatim>\<open>fs.readFileSync\<close>,
  \<^verbatim>\<open>path.join\<close>, \<^verbatim>\<open>util.inspect\<close>, \<^verbatim>\<open>JSON.stringify\<close> and \<^verbatim>\<open>os.EOL\<close>.
  A call that can throw returns a sum, \<open>Inl\<close> the thrown error. \<open>'p\<close> is the type of the
  parsed SSH URL, \<open>'a\<close> the type of a successful check's payload, \<open>'s\<close> the type
  \<^verbatim>\<open>SshState\<close>.
\<close>

text \<open>
  \<^verbatim>\<open>ConnectionCheckResult\<close> as \<^verbatim>\<open>formatConnectionCheckResult\<close> inspects it: an object
  that may have a field \<^verbatim>\<open>unverifiedHostKey\<close>, may have a field \<^verbatim>\<open>error\<close>, and has
  whatever else the checker put there (\<open>rest\<close>).
\<close>

record 'a ConnectionCheckResult =
  unverifiedHostKey :: "string option"
  error :: "js_error option"
  rest :: 'a

text \<open>
  The three object literals \<^verbatim>\<open>formatConnectionCheckResult\<close> can return:
  \<^verbatim>\<open>{ unverifiedHostKey }\<close>, \<^verbatim>\<open>{ error, stack, details }\<close>, or its argument.
\<close>

datatype 'a formatted =
  FormattedUnverifiedHostKey string
| FormattedError string "string option" string
| Unformatted "'a ConnectionCheckResult"

record ('p, 'a, 's) platform =
  parseSshUrl :: "string \<Rightarrow> js_error + 'p"
  readFileSync :: "string \<Rightarrow> js_error + string"
  path_join :: "string list \<Rightarrow> string"
  formatPublicKey :: "string \<Rightarrow> string"
  inspect :: "js_error \<Rightarrow> string"
  stringify_result :: "'a formatted \<Rightarrow> string"
  stringify_state :: "'s \<Rightarrow> string"
  EOL :: string

text \<open>
  Modelled from the spec: \<^verbatim>\<open>requiredEnv\<close> of \<^verbatim>\<open>./src/env\<close> is not part of
  \<^verbatim>\<open>main.ts\<close>. Section 7 of the specification makes a missing connection target a
  configuration error that is fatal at startup: the call throws when the variable is unset
  and returns its value otherwise. The specification does not give the text of the error;
  the one below stands for it, and no property depends on it.
\<close>

definition requiredEnv :: "env \<Rightarrow> string \<Rightarrow> js_error + string" where
  "requiredEnv e k =
     (case e k of
        None \<Rightarrow> Inl \<lparr>name = ''Error'', message = ''required env var not set: '' @ k, stack = None\<rparr>
      | Some v \<Rightarrow> Inr v)"

subsection \<open>\<^verbatim>\<open>sshConnectionConfigFromEnv\<close>\<close>

text \<open>
  \<^verbatim>\<open>SshConnectionConfig\<close>. The object literal spreads \<^verbatim>\<open>...parsed\<close> first and lists the
  other fields after it, so the listed fields are the ones written here whatever
  \<^verbatim>\<open>parsed\<close> holds.
\<close>

record 'p SshConnectionConfig =
  parsed :: 'p
  clientPrivateKey :: string
  username :: string
  knownServerPublicKeys :: "string list"
  insecureSkipVerify :: bool
  tlsServerName :: "string option"

text \<open>
  \<^verbatim>\<open>process.env.SSH_PRIVATE_KEY || fs.readFileSync(path.join(process.env.HOME || '/root',
  '.ssh', 'id_rsa'), { encoding: 'utf8' })\<close>: the file is read only when the variable is
  falsy, and an unreadable file throws.
\<close>

definition clientPrivateKeyFromEnv ::
    "('p, 'a, 's) platform \<Rightarrow> env \<Rightarrow> js_error + string" where
  "clientPrivateKeyFromEnv pf e =
     (if truthy (e ''SSH_PRIVATE_KEY'') then Inr (the (e ''SSH_PRIVATE_KEY''))
      else readFileSync pf (path_join pf [js_or (e ''HOME'') ''/root'', ''.ssh'', ''id_rsa'']))"

definition sshConnectionConfigFromEnv ::
    "('p, 'a, 's) platform \<Rightarrow> env \<Rightarrow> js_error + ('p SshConnectionConfig \<times> string)" where
  "sshConnectionConfigFromEnv pf e =
     (case requiredEnv e ''SSH_URL'' of
        Inl err \<Rightarrow> Inl err
      | Inr sshUrl \<Rightarrow>
          (case parseSshUrl pf sshUrl of
             Inl err \<Rightarrow> Inl err
           | Inr p \<Rightarrow>
               (case clientPrivateKeyFromEnv pf e of
                  Inl err \<Rightarrow> Inl err
                | Inr key \<Rightarrow>
                    Inr (\<lparr>parsed = p,
                          clientPrivateKey = key,
                          username = js_nullish (e ''USER'') ''foo'',
                          knownServerPublicKeys = filter_Boolean [e ''SSH_SERVER_PUBLIC_KEY''],
                          insecureSkipVerify = truthy (e ''INSECURE_SKIP_VERIFY''),
                          tlsServerName = js_or_undefined (e ''TLS_SERVERNAME'')\<rparr>,
                         sshUrl))))"

subsection \<open>\<^verbatim>\<open>formatConnectionCheckResult\<close>\<close>

definition formatConnectionCheckResult ::
    "('p, 'a, 's) platform \<Rightarrow> 'a ConnectionCheckResult \<Rightarrow> 'a formatted" where
  "formatConnectionCheckResult pf r =
     (case unverifiedHostKey r of
        Some k \<Rightarrow> FormattedUnverifiedHostKey (formatPublicKey pf k)
      | None \<Rightarrow>
          (case error r of
             Some err \<Rightarrow>
               FormattedError (if message err \<noteq> [] then message err else toString err)
                 (stack err) (inspect pf err)
           | None \<Rightarrow> Unformatted r))"

subsection \<open>\<^verbatim>\<open>main\<close>: startup\<close>

text \<open>
  The object passed to \<^verbatim>\<open>log.debug('ssh config: %j', ...)\<close>: the configuration spread,
  then \<^verbatim>\<open>clientPrivateKey\<close> overwritten and \<^verbatim>\<open>clientPublicKey\<close> added.
\<close>

record 'p SshConfigLogObject = "'p SshConnectionConfig" +
  clientPublicKey :: string

definition sshConfigLogObject ::
    "('p, 'a, 's) platform \<Rightarrow> 'p SshConnectionConfig \<Rightarrow> 'p SshConfigLogObject" where
  "sshConfigLogObject pf c =
     \<lparr>parsed = parsed c,
      clientPrivateKey = ''*** REDACTED ***'',
      username = username c,
      knownServerPublicKeys = knownServerPublicKeys c,
      insecureSkipVerify = insecureSkipVerify c,
      tlsServerName = tlsServerName c,
      clientPublicKey = formatPublicKey pf (clientPrivateKey c)\<rparr>"

text \<open>
  What \<^verbatim>\<open>main\<close> does to the outside, in order: the calls it makes on the logger, the
  checker, standard output, Docker, the SSH client and the web server.
\<close>

datatype 'p event =
  LogDebugSshConfig "'p SshConfigLogObject"
| CheckConnection "'p SshConnectionConfig"
| StdoutWrite string
| NewDocker string
| CreateDockerClient nat
| CreateSshClient "'p SshConnectionConfig"
| LogError js_error
| LogInfoConnected string
| ListenToContainers
| CreateWebServer
| Listen string

text \<open>
  How \<^verbatim>\<open>main\<close> ends: \<^verbatim>\<open>process.exit(n)\<close>; an exception that rejects the promise of
  \<^verbatim>\<open>main\<close>, which \<^verbatim>\<open>void main()\<close> leaves unhandled; or the process keeps running.
  What the process does on an unhandled rejection, and with which exit code it ends then,
  is decided by the Node.js runtime and its options, not by \<^verbatim>\<open>main.ts\<close>; it is not
  modelled.
\<close>

datatype outcome = Exit nat | UnhandledRejection js_error | Running

text \<open>
  How \<^verbatim>\<open>await createSshClient(...)\<close> ends: the promise resolves, the promise rejects, or
  the client calls the \<^verbatim>\<open>onError\<close> callback it was given.
\<close>

datatype ssh_client_start = SshConnected | SshRejected js_error | SshOnError js_error

text \<open>\<^verbatim>\<open>process.env.SSH_CHECK_ONLY || process.argv.includes('check')\<close>.\<close>

definition check_only :: "env \<Rightarrow> string list \<Rightarrow> bool" where
  "check_only e argv = (truthy (e ''SSH_CHECK_ONLY'') \<or> ''check'' \<in> set argv)"

text \<open>
  \<^verbatim>\<open>main\<close> up to the point where it exits or has started every service. \<open>r\<close> is what
  \<^verbatim>\<open>checkConnection\<close> resolves to and \<open>c\<close> how \<^verbatim>\<open>createSshClient\<close> ends; each is read
  only where \<^verbatim>\<open>main\<close> makes that call. The \<^verbatim>\<open>onError\<close> callback is
  \<^verbatim>\<open>log.error(err); process.exit(1)\<close>. The port \<^verbatim>\<open>process.env.PORT ?? 3000\<close> is
  written as a string, the number \<^verbatim>\<open>3000\<close> as its decimal text. The helpers that
  \<^verbatim>\<open>main\<close> calls outside the configuration (\<^verbatim>\<open>formatPublicKey\<close>, \<^verbatim>\<open>inspect\<close>,
  \<^verbatim>\<open>JSON.stringify\<close>, the writes) are taken to return.
\<close>

definition main ::
    "('p, 'a, 's) platform \<Rightarrow> env \<Rightarrow> string list \<Rightarrow> 'a ConnectionCheckResult \<Rightarrow>
     ssh_client_start \<Rightarrow> 'p event list \<times> outcome" where
  "main pf e argv r c =
     (case sshConnectionConfigFromEnv pf e of
        Inl err \<Rightarrow> ([], UnhandledRejection err)
      | Inr (connectionConfig, sshUrl) \<Rightarrow>
          (let t0 = [LogDebugSshConfig (sshConfigLogObject pf connectionConfig)] in
           if check_only e argv then
             (t0 @ [CheckConnection connectionConfig,
                    StdoutWrite (stringify_result pf (formatConnectionCheckResult pf r)),
                    StdoutWrite (EOL pf)],
              Exit 0)
           else
             (let t1 = t0 @ [NewDocker ''/var/run/docker.sock'', CreateDockerClient 500,
                             CreateSshClient connectionConfig] in
              case c of
                SshRejected err \<Rightarrow> (t1, UnhandledRejection err)
              | SshOnError err \<Rightarrow> (t1 @ [LogError err], Exit 1)
              | SshConnected \<Rightarrow>
                  (t1 @ [LogInfoConnected sshUrl, ListenToContainers, CreateWebServer,
                         Listen (js_nullish (e ''PORT'') ''3000'')],
                   Running))))"

subsection \<open>\<^verbatim>\<open>main\<close>: the steady state\<close>

text \<open>
  After startup \<^verbatim>\<open>main\<close> has left behind the variable \<^verbatim>\<open>state\<close>, the promise
  \<^verbatim>\<open>initPromise\<close> and four callbacks. The record holds what they share:
  \<^item> \<open>state\<close>: the variable \<^verbatim>\<open>let state: SshState\<close>, \<^verbatim>\<open>undefined\<close> until first assigned;
  \<^item> \<open>initResolved\<close>: whether \<^verbatim>\<open>resolve()\<close> of \<^verbatim>\<open>initPromise\<close> has been called;
  \<^item> \<open>waiting\<close>: the \<^verbatim>\<open>then\<close> callbacks registered on the pending \<^verbatim>\<open>initPromise\<close>,
    each named by the caller of \<^verbatim>\<open>getSshState\<close> it answers;
  \<^item> \<open>ready\<close>: the \<^verbatim>\<open>then\<close> callbacks queued to run, \<^verbatim>\<open>initPromise\<close> being resolved;
  \<^item> \<open>delivered\<close>: the values the promises returned by \<^verbatim>\<open>getSshState\<close> were
    fulfilled with, in order;
  \<^item> \<open>stdout\<close>: the arguments of \<^verbatim>\<open>process.stdout.write\<close>, in order;
  \<^item> \<open>logged\<close>: the arguments of \<^verbatim>\<open>log.error\<close>, in order;
  \<^item> \<open>exited\<close>: the code given to \<^verbatim>\<open>process.exit\<close>, once it has been called.
\<close>

record 's proc =
  state :: "'s option"
  initResolved :: bool
  waiting :: "nat list"
  ready :: "nat list"
  delivered :: "(nat \<times> 's option) list"
  stdout :: "string list"
  logged :: "js_error list"
  exited :: "nat option"

definition init_proc :: "'s proc" where
  "init_proc =
     \<lparr>state = None, initResolved = False, waiting = [], ready = [], delivered = [],
      stdout = [], logged = [], exited = None\<rparr>"

text \<open>
  One job of the event loop:
  \<^item> \<open>UpdateTunnelsResolved s\<close>: \<^verbatim>\<open>onChange\<close> resumes after
    \<^verbatim>\<open>await sshClient.updateTunnels(services)\<close> with the value \<open>s\<close>, and runs to its end;
    \<^verbatim>\<open>resolve()\<close> has an effect the first time only, when it queues the waiting callbacks;
  \<^item> \<open>GetSshState c\<close>: the web server calls \<^verbatim>\<open>getSshState\<close> on behalf of \<open>c\<close>;
  \<^item> \<open>RunThen\<close>: the first queued callback \<^verbatim>\<open>() => state\<close> runs;
  \<^item> \<open>SshClientError err\<close>: the SSH client calls \<^verbatim>\<open>onError\<close>;
  \<^item> \<open>WebServerError err\<close>: the web server emits \<^verbatim>\<open>'error'\<close>.
\<close>

datatype 's job =
  UpdateTunnelsResolved 's
| GetSshState nat
| RunThen
| SshClientError js_error
| WebServerError js_error

definition step :: "('p, 'a, 's) platform \<Rightarrow> 's job \<Rightarrow> 's proc \<Rightarrow> 's proc" where
  "step pf j p =
     (if exited p \<noteq> None then p
      else case j of
        UpdateTunnelsResolved s \<Rightarrow>
          (let p' = p\<lparr>state := Some s,
                        stdout := stdout p @ [stringify_state pf s, EOL pf]\<rparr>
           in if initResolved p then p'
              else p'\<lparr>initResolved := True, waiting := [], ready := ready p @ waiting p\<rparr>)
      | GetSshState c \<Rightarrow>
          (if initResolved p then p\<lparr>ready := ready p @ [c]\<rparr>
           else p\<lparr>waiting := waiting p @ [c]\<rparr>)
      | RunThen \<Rightarrow>
          (case ready p of
             [] \<Rightarrow> p
           | c # cs \<Rightarrow> p\<lparr>ready := cs, delivered := delivered p @ [(c, state p)]\<rparr>)
      | SshClientError err \<Rightarrow> p\<lparr>logged := logged p @ [err], exited := Some 1\<rparr>
      | WebServerError err \<Rightarrow> p\<lparr>logged := logged p @ [err], exited := Some 1\<rparr>)"

fun exec :: "('p, 'a, 's) platform \<Rightarrow> 's job list \<Rightarrow> 's proc \<Rightarrow> 's proc" where
  "exec pf [] p = p"
| "exec pf (j # js) p = exec pf js (step pf j p)"

text \<open>
  The states that \<^verbatim>\<open>onChange\<close> has published in a run of jobs, oldest first: those of
  the jobs \<open>UpdateTunnelsResolved\<close> that ran before the process exited.
\<close>

fun published :: "'s job list \<Rightarrow> 's list" where
  "published [] = []"
| "published (UpdateTunnelsResolved s # js) = s # published js"
| "published (SshClientError err # js) = []"
| "published (WebServerError err # js) = []"
| "published (GetSshState c # js) = published js"
| "published (RunThen # js) = published js"

text \<open>
  The callers of \<^verbatim>\<open>getSshState\<close> in a run of jobs, in the order of their calls: those of
  the jobs \<open>GetSshState\<close> that ran before the process exited.
\<close>

fun calls :: "'s job list \<Rightarrow> nat list" where
  "calls [] = []"
| "calls (GetSshState c # js) = c # calls js"
| "calls (SshClientError err # js) = []"
| "calls (WebServerError err # js) = []"
| "calls (UpdateTunnelsResolved s # js) = calls js"
| "calls (RunThen # js) = calls js"

text \<open>
  The jobs whose callback calls \<^verbatim>\<open>process.exit\<close>: \<^verbatim>\<open>onError\<close> of the SSH client and the
  \<^verbatim>\<open>'error'\<close> handler of the web server.
\<close>

fun is_exit_job :: "'s job \<Rightarrow> bool" where
  "is_exit_job (SshClientError err) = True"
| "is_exit_job (WebServerError err) = True"
| "is_exit_job (UpdateTunnelsResolved s) = False"
| "is_exit_job (GetSshState c) = False"
| "is_exit_job RunThen = False"

text \<open>
  What holds of the shared variables whenever a job starts: a callback is queued only once
  \<^verbatim>\<open>initPromise\<close> is resolved, \<^verbatim>\<open>initPromise\<close> is resolved only once \<^verbatim>\<open>state\<close> has
  been assigned, and no callback waits on a resolved \<^verbatim>\<open>initPromise\<close>.
\<close>

definition coherent :: "'s proc \<Rightarrow> bool" where
  "coherent p \<longleftrightarrow>
     (ready p \<noteq> [] \<longrightarrow> initResolved p) \<and> (initResolved p \<longrightarrow> state p \<noteq> None)
     \<and> (initResolved p \<longrightarrow> waiting p = [])"

section \<open>Modules of the repository that \<^verbatim>\<open>main.ts\<close> calls\<close>

subsection \<open>The Connection Checker\<close>

text \<open>
  Modelled from the spec: the type \<^verbatim>\<open>ConnectionCheckResult\<close> as section 3 of the
  specification gives it, a tagged variant with exactly one of \<open>Ok\<close>,
  \<open>UnverifiedHostKey(key)\<close> and \<open>Error(err)\<close>; the module
  \<^verbatim>\<open>./src/ssh/connection-checker\<close> that declares it is missing.
\<close>

datatype check_result = Ok | UnverifiedHostKey string | Error js_error

text \<open>
  What the single handshake attempt of a check meets: the transport fails before the
  server has shown a key, or the server presents a host key and, if the client goes on,
  authentication ends without or with an error.
\<close>

datatype handshake = TransportFailed js_error | HostKeyPresented string "js_error option"

text \<open>
  Modelled from the spec: \<^verbatim>\<open>checkConnection\<close> of \<^verbatim>\<open>./src/ssh\<close> is missing. Section 4.2
  of the specification: if the presented key matches any entry in the pinned key set,
  succeed; if the pinned set is empty and insecure-skip-verify is set, succeed; otherwise
  return \<open>UnverifiedHostKey\<close> carrying the presented key. Any transport or authentication
  failure returns \<open>Error\<close>.
\<close>

definition checkConnection :: "'p SshConnectionConfig \<Rightarrow> handshake \<Rightarrow> check_result" where
  "checkConnection cfg h =
     (case h of
        TransportFailed err \<Rightarrow> Error err
      | HostKeyPresented k auth \<Rightarrow>
          (if k \<in> set (knownServerPublicKeys cfg)
           then (case auth of None \<Rightarrow> Ok | Some err \<Rightarrow> Error err)
           else if knownServerPublicKeys cfg = [] \<and> insecureSkipVerify cfg
           then (case auth of None \<Rightarrow> Ok | Some err \<Rightarrow> Error err)
           else UnverifiedHostKey k))"

subsection \<open>The SSH Connection Manager\<close>

text \<open>
  Modelled from the spec: \<^verbatim>\<open>sshClient\<close> of \<^verbatim>\<open>./src/ssh\<close> is missing. Sections 4.3 and 7
  of the specification: the manager holds one connection; an unrecoverable failure of the
  initial handshake is fatal; on an unexpected disconnect after the initial connection has
  succeeded it attempts reconnection with exponential backoff and jitter, bounded by a
  maximum retry interval, retried indefinitely. The base delay, the maximum interval and
  the jitter of each attempt are not given by the specification and are parameters.
\<close>

record backoff =
  base_delay :: nat
  max_interval :: nat
  jitter :: "nat \<Rightarrow> nat"

definition retry_delay :: "backoff \<Rightarrow> nat \<Rightarrow> nat" where
  "retry_delay b n = min (max_interval b) (base_delay b * 2 ^ n + jitter b n)"

datatype conn_state = Connecting | Established | Reconnecting nat | Closed

datatype conn_event = HandshakeOk | HandshakeFailed js_error | Disconnected

text \<open>
  What the manager does in answer to an event: it calls the \<^verbatim>\<open>onError\<close> callback that
  \<^verbatim>\<open>main\<close> passed to it, or it schedules the next connection attempt after a delay.
\<close>

datatype conn_action = CallOnError js_error | ScheduleReconnect nat

fun manager_step :: "backoff \<Rightarrow> conn_event \<Rightarrow> conn_state \<Rightarrow> conn_state \<times> conn_action list" where
  "manager_step b HandshakeOk Connecting = (Established, [])"
| "manager_step b (HandshakeFailed err) Connecting = (Closed, [CallOnError err])"
| "manager_step b Disconnected Connecting = (Connecting, [])"
| "manager_step b Disconnected Established =
     (Reconnecting 0, [ScheduleReconnect (retry_delay b 0)])"
| "manager_step b HandshakeOk Established = (Established, [])"
| "manager_step b (HandshakeFailed err) Established = (Established, [])"
| "manager_step b HandshakeOk (Reconnecting n) = (Established, [])"
| "manager_step b (HandshakeFailed err) (Reconnecting n) =
     (Reconnecting (Suc n), [ScheduleReconnect (retry_delay b (Suc n))])"
| "manager_step b Disconnected (Reconnecting n) = (Reconnecting n, [])"
| "manager_step b ev Closed = (Closed, [])"

fun manager_run :: "backoff \<Rightarrow> conn_event list \<Rightarrow> conn_state \<Rightarrow> conn_state \<times> conn_action list" where
  "manager_run b [] s = (s, [])"
| "manager_run b (ev # evs) s =
     (case manager_step b ev s of
        (s', as) \<Rightarrow> (case manager_run b evs s' of (s'', as') \<Rightarrow> (s'', as @ as')))"

text \<open>
  The jobs the manager's actions start in the process of \<^verbatim>\<open>main\<close>: each call of
  \<^verbatim>\<open>onError\<close> is a job \<open>SshClientError\<close>; a scheduled attempt starts none.
\<close>

fun onError_jobs :: "conn_action list \<Rightarrow> 's job list" where
  "onError_jobs [] = []"
| "onError_jobs (CallOnError err # as) = SshClientError err # onError_jobs as"
| "onError_jobs (ScheduleReconnect d # as) = onError_jobs as"

subsection \<open>A concrete platform and environment\<close>

text \<open>
  A platform and an environment on which the definitions above can be run: the URL parser
  rejects the empty string only, no file is readable, and a state is its own JSON text.
\<close>

definition example_error :: "string \<Rightarrow> js_error" where
  "example_error m = \<lparr>name = ''Error'', message = m, stack = None\<rparr>"

definition example_platform :: "(string, unit, string) platform" where
  "example_platform =
     \<lparr>parseSshUrl = (\<lambda>u. if u = [] then Inl (example_error ''bad url'') else Inr u),
      readFileSync = (\<lambda>f. Inl (example_error ''ENOENT'')),
      path_join = (\<lambda>xs. concat (map (\<lambda>x. x @ ''/'') xs)),
      formatPublicKey = (\<lambda>k. ''pub:'' @ k),
      inspect = message,
      stringify_result = (\<lambda>f. case f of
          FormattedUnverifiedHostKey k \<Rightarrow> ''{unverifiedHostKey:'' @ k @ ''}''
        | FormattedError m st d \<Rightarrow> ''{error:'' @ m @ ''}''
        | Unformatted r \<Rightarrow> ''{}''),
      stringify_state = (\<lambda>s. s),
      EOL = [CHR 10]\<rparr>"

definition example_env :: env where
  "example_env =
     [''SSH_URL'' \<mapsto> ''ssh://h:22'', ''SSH_PRIVATE_KEY'' \<mapsto> ''KEY'',
      ''SSH_SERVER_PUBLIC_KEY'' \<mapsto> ''K'', ''INSECURE_SKIP_VERIFY'' \<mapsto> ''false'']"

definition example_config :: "string SshConnectionConfig" where
  "example_config =
     \<lparr>parsed = ''ssh://h:22'', clientPrivateKey = ''KEY'', username = ''foo'',
      knownServerPublicKeys = [''K''], insecureSkipVerify = True, tlsServerName = None\<rparr>"

definition example_backoff :: backoff where
  "example_backoff = \<lparr>base_delay = 1, max_interval = 30, jitter = (\<lambda>n. 0)\<rparr>"

section \<open>Properties\<close>

lemma example_config_from_env:
  "sshConnectionConfigFromEnv example_platform example_env = Inr (example_config, ''ssh://h:22'')"
  by (simp add: sshConnectionConfigFromEnv_def example_platform_def example_env_def
      example_config_def requiredEnv_def clientPrivateKeyFromEnv_def truthy_def
      filter_Boolean_def js_nullish_def js_or_undefined_def)


lemma main_logs_config:
  "LogDebugSshConfig obj \<in> set (fst (main pf e argv r c)) \<longleftrightarrow>
     (\<exists>cfg url. sshConnectionConfigFromEnv pf e = Inr (cfg, url) \<and> obj = sshConfigLogObject pf cfg)"
proof (cases "sshConnectionConfigFromEnv pf e")
  case (Inl err)
  then show ?thesis by (simp add: main_def)
next
  case (Inr cu)
  obtain cfg url where "cu = (cfg, url)" by (cases cu)
  with Inr show ?thesis
    by (cases c) (auto simp: main_def Let_def)
qed

lemma config_other_private_key:
  assumes "sshConnectionConfigFromEnv pf e = Inr (cfg, url)"
    and "sshConnectionConfigFromEnv pf (e(''SSH_PRIVATE_KEY'' := v)) = Inr (cfg', url')"
  shows "parsed cfg' = parsed cfg \<and> username cfg' = username cfg
         \<and> knownServerPublicKeys cfg' = knownServerPublicKeys cfg
         \<and> insecureSkipVerify cfg' = insecureSkipVerify cfg
         \<and> tlsServerName cfg' = tlsServerName cfg"
proof -
  let ?e = "e(''SSH_PRIVATE_KEY'' := v)"
  have url: "?e ''SSH_URL'' = e ''SSH_URL''" by simp
  have user: "?e ''USER'' = e ''USER''" by simp
  have pk: "?e ''SSH_SERVER_PUBLIC_KEY'' = e ''SSH_SERVER_PUBLIC_KEY''" by simp
  have skip: "?e ''INSECURE_SKIP_VERIFY'' = e ''INSECURE_SKIP_VERIFY''" by simp
  have tls: "?e ''TLS_SERVERNAME'' = e ''TLS_SERVERNAME''" by simp
  from assms show ?thesis
    unfolding sshConnectionConfigFromEnv_def requiredEnv_def url user pk skip tls
    by (auto split: sum.splits option.splits)
qed

subsection \<open>The configuration read from the environment\<close>

text \<open>
  Claim C8. The pinned server key set of a configuration built from the environment is
  the one-element list of \<^verbatim>\<open>SSH_SERVER_PUBLIC_KEY\<close> when that variable holds a
  non-empty string, and empty when it is unset or empty; so it never has more than one
  key.
\<close>

theorem knownServerPublicKeys_from_env:
  "sshConnectionConfigFromEnv pf e = Inr (cfg, url) \<Longrightarrow>
     knownServerPublicKeys cfg =
       (case e ''SSH_SERVER_PUBLIC_KEY'' of None \<Rightarrow> [] | Some k \<Rightarrow> if k = [] then [] else [k])
     \<and> length (knownServerPublicKeys cfg) \<le> 1"
  by (auto simp: sshConnectionConfigFromEnv_def filter_Boolean_def truthy_def
           split: sum.splits option.splits)

theorem knownServerPublicKeys_from_env_witness:
  "sshConnectionConfigFromEnv example_platform example_env = Inr (example_config, ''ssh://h:22'')
   \<and> knownServerPublicKeys example_config = [''K'']
   \<and> length (knownServerPublicKeys example_config) \<le> 1"
  using knownServerPublicKeys_from_env [OF example_config_from_env] example_config_from_env
  by (simp add: example_env_def)

text \<open>
  Claim C9. The insecure-skip-verify flag of a configuration built from the environment
  is true exactly when \<^verbatim>\<open>INSECURE_SKIP_VERIFY\<close> holds a non-empty string; the values
  \<^verbatim>\<open>false\<close>, \<^verbatim>\<open>0\<close> and \<^verbatim>\<open>no\<close> switch verification off like any other, and only an
  unset or empty variable leaves it on.
\<close>

theorem insecureSkipVerify_from_env:
  "sshConnectionConfigFromEnv pf e = Inr (cfg, url) \<Longrightarrow>
     (insecureSkipVerify cfg \<longleftrightarrow> (\<exists>v. e ''INSECURE_SKIP_VERIFY'' = Some v \<and> v \<noteq> []))
     \<and> (e ''INSECURE_SKIP_VERIFY'' \<in> {Some ''false'', Some ''0'', Some ''no''}
          \<longrightarrow> insecureSkipVerify cfg)
     \<and> (e ''INSECURE_SKIP_VERIFY'' \<in> {None, Some []} \<longrightarrow> \<not> insecureSkipVerify cfg)"
  by (auto simp: sshConnectionConfigFromEnv_def truthy_def
           split: sum.splits option.splits)

theorem insecureSkipVerify_from_env_witness:
  "sshConnectionConfigFromEnv example_platform example_env = Inr (example_config, ''ssh://h:22'')
   \<and> example_env ''INSECURE_SKIP_VERIFY'' = Some ''false''
   \<and> insecureSkipVerify example_config"
  using insecureSkipVerify_from_env [OF example_config_from_env] example_config_from_env
  by (simp add: example_env_def)

text \<open>
  Claim C6. When \<^verbatim>\<open>SSH_URL\<close> is unset, or \<^verbatim>\<open>parseSshUrl\<close> throws on its value, or
  \<^verbatim>\<open>SSH_PRIVATE_KEY\<close> is unset (or empty) and reading the default key file throws, the
  promise of \<^verbatim>\<open>main\<close> is rejected with no call made at all: \<^verbatim>\<open>main\<close> has failed
  before any connection check and before any SSH client was started.
\<close>

theorem configuration_error_before_any_connection:
  assumes "e ''SSH_URL'' = None
           \<or> (\<exists>url err. e ''SSH_URL'' = Some url \<and> parseSshUrl pf url = Inl err)
           \<or> (\<not> truthy (e ''SSH_PRIVATE_KEY'') \<and>
               (\<exists>err. readFileSync pf
                         (path_join pf [js_or (e ''HOME'') ''/root'', ''.ssh'', ''id_rsa''])
                       = Inl err))"
  shows "\<exists>err. main pf e argv r c = ([], UnhandledRejection err)"
  using assms
  by (auto simp: main_def sshConnectionConfigFromEnv_def requiredEnv_def
      clientPrivateKeyFromEnv_def
      split: sum.splits prod.splits option.splits)

theorem configuration_error_before_any_connection_witness:
  "\<not> truthy ((example_env(''SSH_PRIVATE_KEY'' := None)) ''SSH_PRIVATE_KEY'')
   \<and> readFileSync example_platform
        (path_join example_platform
           [js_or ((example_env(''SSH_PRIVATE_KEY'' := None)) ''HOME'') ''/root'', ''.ssh'',
            ''id_rsa''])
      = Inl (example_error ''ENOENT'')
   \<and> main example_platform (example_env(''SSH_PRIVATE_KEY'' := None)) []
        \<lparr>unverifiedHostKey = None, error = None, rest = ()\<rparr> SshConnected
      = ([], UnhandledRejection (example_error ''ENOENT''))"
proof -
  let ?e = "example_env(''SSH_PRIVATE_KEY'' := None)"
  have h1: "\<not> truthy (?e ''SSH_PRIVATE_KEY'')"
    by (simp add: truthy_def)
  have h2: "readFileSync example_platform
        (path_join example_platform [js_or (?e ''HOME'') ''/root'', ''.ssh'', ''id_rsa''])
      = Inl (example_error ''ENOENT'')"
    by (simp add: example_platform_def)
  from h1 h2 have "?e ''SSH_URL'' = None
           \<or> (\<exists>url err. ?e ''SSH_URL'' = Some url \<and> parseSshUrl example_platform url = Inl err)
           \<or> (\<not> truthy (?e ''SSH_PRIVATE_KEY'') \<and>
               (\<exists>err. readFileSync example_platform
                         (path_join example_platform [js_or (?e ''HOME'') ''/root'', ''.ssh'', ''id_rsa''])
                       = Inl err))"
    by blast
  from configuration_error_before_any_connection [OF this, of "[]"
      "\<lparr>unverifiedHostKey = None, error = None, rest = ()\<rparr>" SshConnected]
  have "main example_platform ?e [] \<lparr>unverifiedHostKey = None, error = None, rest = ()\<rparr>
          SshConnected = ([], UnhandledRejection (example_error ''ENOENT''))"
    by (auto simp: main_def sshConnectionConfigFromEnv_def requiredEnv_def
        clientPrivateKeyFromEnv_def truthy_def example_env_def example_platform_def)
  with h1 h2 show ?thesis by blast
qed

text \<open>
  Claim C10. The object that \<^verbatim>\<open>main\<close> passes to \<^verbatim>\<open>log.debug\<close> has the constant string
  \<^verbatim>\<open>*** REDACTED ***\<close> in its field \<^verbatim>\<open>clientPrivateKey\<close>, whatever the key, and the key
  enters the object through \<^verbatim>\<open>formatPublicKey\<close> only, in the field
  \<^verbatim>\<open>clientPublicKey\<close>. Two runs whose environments differ in \<^verbatim>\<open>SSH_PRIVATE_KEY\<close> alone
  log objects with the same \<^verbatim>\<open>clientPrivateKey\<close> field, and the objects are equal in
  every field other than \<^verbatim>\<open>clientPublicKey\<close>.
\<close>

theorem debug_log_redacts_private_key:
  "(LogDebugSshConfig obj \<in> set (fst (main pf e argv r c)) \<longrightarrow>
      clientPrivateKey obj = ''*** REDACTED ***''
      \<and> (\<exists>cfg url. sshConnectionConfigFromEnv pf e = Inr (cfg, url)
            \<and> obj = sshConfigLogObject pf cfg
            \<and> clientPublicKey obj = formatPublicKey pf (clientPrivateKey cfg)))
   \<and> (LogDebugSshConfig obj \<in> set (fst (main pf e argv r c))
      \<and> LogDebugSshConfig obj' \<in> set (fst (main pf (e(''SSH_PRIVATE_KEY'' := v)) argv' r' c'))
      \<longrightarrow> clientPrivateKey obj' = clientPrivateKey obj
          \<and> obj' = obj\<lparr>clientPublicKey := clientPublicKey obj'\<rparr>)"
proof (intro conjI impI)
  assume "LogDebugSshConfig obj \<in> set (fst (main pf e argv r c))"
  then obtain cfg url where "sshConnectionConfigFromEnv pf e = Inr (cfg, url)"
    and "obj = sshConfigLogObject pf cfg"
    unfolding main_logs_config by blast
  then show "clientPrivateKey obj = ''*** REDACTED ***''"
    and "\<exists>cfg url. sshConnectionConfigFromEnv pf e = Inr (cfg, url)
            \<and> obj = sshConfigLogObject pf cfg
            \<and> clientPublicKey obj = formatPublicKey pf (clientPrivateKey cfg)"
    by (simp_all add: sshConfigLogObject_def)
next
  assume a: "LogDebugSshConfig obj \<in> set (fst (main pf e argv r c))
      \<and> LogDebugSshConfig obj' \<in> set (fst (main pf (e(''SSH_PRIVATE_KEY'' := v)) argv' r' c'))"
  then obtain cfg url where 1: "sshConnectionConfigFromEnv pf e = Inr (cfg, url)"
    "obj = sshConfigLogObject pf cfg"
    unfolding main_logs_config by blast
  from a obtain cfg' url'
    where 2: "sshConnectionConfigFromEnv pf (e(''SSH_PRIVATE_KEY'' := v)) = Inr (cfg', url')"
      "obj' = sshConfigLogObject pf cfg'"
    unfolding main_logs_config by blast
  from config_other_private_key [OF 1(1) 2(1)] 1(2) 2(2)
  show "clientPrivateKey obj' = clientPrivateKey obj"
    and "obj' = obj\<lparr>clientPublicKey := clientPublicKey obj'\<rparr>"
    by (simp_all add: sshConfigLogObject_def)
qed

theorem debug_log_redacts_private_key_witness:
  "LogDebugSshConfig (sshConfigLogObject example_platform example_config)
     \<in> set (fst (main example_platform example_env [] \<lparr>unverifiedHostKey = None, error = None, rest = ()\<rparr> SshConnected))
   \<and> LogDebugSshConfig (sshConfigLogObject example_platform (example_config\<lparr>clientPrivateKey := ''OTHER''\<rparr>))
     \<in> set (fst (main example_platform (example_env(''SSH_PRIVATE_KEY'' := Some ''OTHER'')) []
                    \<lparr>unverifiedHostKey = None, error = None, rest = ()\<rparr> SshConnected))
   \<and> clientPrivateKey (sshConfigLogObject example_platform example_config) = ''*** REDACTED ***''
   \<and> clientPrivateKey (sshConfigLogObject example_platform (example_config\<lparr>clientPrivateKey := ''OTHER''\<rparr>))
       = clientPrivateKey (sshConfigLogObject example_platform example_config)
   \<and> clientPublicKey (sshConfigLogObject example_platform example_config) = ''pub:KEY''
   \<and> clientPublicKey (sshConfigLogObject example_platform (example_config\<lparr>clientPrivateKey := ''OTHER''\<rparr>))
       = ''pub:OTHER''"
proof -
  let ?r = "\<lparr>unverifiedHostKey = None, error = None, rest = ()\<rparr>"
  let ?e' = "example_env(''SSH_PRIVATE_KEY'' := Some ''OTHER'')"
  let ?obj = "sshConfigLogObject example_platform example_config"
  let ?obj' = "sshConfigLogObject example_platform (example_config\<lparr>clientPrivateKey := ''OTHER''\<rparr>)"
  have cfg': "sshConnectionConfigFromEnv example_platform ?e'
      = Inr (example_config\<lparr>clientPrivateKey := ''OTHER''\<rparr>, ''ssh://h:22'')"
    by (simp add: sshConnectionConfigFromEnv_def example_platform_def example_env_def
      example_config_def requiredEnv_def clientPrivateKeyFromEnv_def truthy_def
      filter_Boolean_def js_nullish_def js_or_undefined_def)
  have h1: "LogDebugSshConfig ?obj \<in> set (fst (main example_platform example_env [] ?r SshConnected))"
    unfolding main_logs_config using example_config_from_env by blast
  have h2: "LogDebugSshConfig ?obj' \<in> set (fst (main example_platform ?e' [] ?r SshConnected))"
    unfolding main_logs_config using cfg' by blast
  have pub: "clientPublicKey ?obj = ''pub:KEY''" "clientPublicKey ?obj' = ''pub:OTHER''"
    by (simp_all add: sshConfigLogObject_def example_platform_def example_config_def)
  from debug_log_redacts_private_key [of ?obj example_platform example_env "[]" ?r SshConnected
      ?obj' "Some ''OTHER''" "[]" ?r SshConnected] h1 h2 pub
  show ?thesis by simp
qed

subsection \<open>Check-only mode\<close>

text \<open>
  Claim C3. \<^verbatim>\<open>formatConnectionCheckResult\<close> goes by the fields its argument has. With a
  field \<^verbatim>\<open>unverifiedHostKey\<close> the result is the object whose only field is the formatted
  key, whether or not there is a field \<^verbatim>\<open>error\<close> as well. Otherwise, with a field
  \<^verbatim>\<open>error\<close> the result carries the error's message (the text of \<^verbatim>\<open>toString()\<close> when the
  message is empty), its stack and its inspection. With neither field the argument is
  returned as it is.
\<close>

theorem formatConnectionCheckResult_by_variant:
  "(unverifiedHostKey r = Some k \<longrightarrow>
      formatConnectionCheckResult pf r = FormattedUnverifiedHostKey (formatPublicKey pf k))
   \<and> (unverifiedHostKey r = None \<and> error r = Some err \<longrightarrow>
      formatConnectionCheckResult pf r =
        FormattedError (if message err = [] then toString err else message err)
          (stack err) (inspect pf err))
   \<and> (unverifiedHostKey r = None \<and> error r = None \<longrightarrow>
      formatConnectionCheckResult pf r = Unformatted r)"
  by (simp add: formatConnectionCheckResult_def)

theorem formatConnectionCheckResult_by_variant_witness:
  "formatConnectionCheckResult example_platform
     \<lparr>unverifiedHostKey = Some ''K2'', error = Some (example_error ''refused''), rest = ()\<rparr>
     = FormattedUnverifiedHostKey ''pub:K2''
   \<and> formatConnectionCheckResult example_platform
     \<lparr>unverifiedHostKey = None, error = Some (example_error ''refused''), rest = ()\<rparr>
     = FormattedError ''refused'' None ''refused''
   \<and> formatConnectionCheckResult example_platform
     \<lparr>unverifiedHostKey = None, error = Some (example_error []), rest = ()\<rparr>
     = FormattedError ''Error'' None []
   \<and> formatConnectionCheckResult example_platform
     \<lparr>unverifiedHostKey = None, error = None, rest = ()\<rparr>
     = Unformatted \<lparr>unverifiedHostKey = None, error = None, rest = ()\<rparr>"
proof -
  let ?both = "\<lparr>unverifiedHostKey = Some ''K2'', error = Some (example_error ''refused''), rest = ()\<rparr>"
  let ?err = "\<lparr>unverifiedHostKey = None, error = Some (example_error ''refused''), rest = ()\<rparr>"
  let ?empty = "\<lparr>unverifiedHostKey = None, error = Some (example_error []), rest = ()\<rparr>"
  let ?ok = "\<lparr>unverifiedHostKey = None, error = None, rest = ()\<rparr>"
  have fp: "formatPublicKey example_platform ''K2'' = ''pub:K2''"
    and insp: "inspect example_platform = message"
    by (simp_all add: example_platform_def)
  from formatConnectionCheckResult_by_variant [of ?both "''K2''" example_platform]
  have 1: "formatConnectionCheckResult example_platform ?both = FormattedUnverifiedHostKey ''pub:K2''"
    by (simp add: fp)
  from formatConnectionCheckResult_by_variant [of ?err k example_platform "example_error ''refused''"]
  have 2: "formatConnectionCheckResult example_platform ?err = FormattedError ''refused'' None ''refused''"
    by (simp add: insp example_error_def)
  from formatConnectionCheckResult_by_variant [of ?empty k example_platform "example_error []"]
  have 3: "formatConnectionCheckResult example_platform ?empty = FormattedError ''Error'' None []"
    by (simp add: insp example_error_def toString_def)
  from formatConnectionCheckResult_by_variant [of ?ok k example_platform]
  have 4: "formatConnectionCheckResult example_platform ?ok = Unformatted ?ok"
    by simp
  from 1 2 3 4 show ?thesis by blast
qed

text \<open>
  Claim C2. In check-only mode (\<^verbatim>\<open>SSH_CHECK_ONLY\<close> holds a non-empty string, or \<^verbatim>\<open>check\<close>
  is among the arguments) and with a configuration that could be built, \<^verbatim>\<open>main\<close> logs the
  configuration, calls \<^verbatim>\<open>checkConnection\<close> once, writes the JSON text of the formatted
  result and then the end of line to standard output, and calls \<^verbatim>\<open>process.exit(0)\<close>,
  whatever the result of the check is; it makes no other call, so no Docker client and no
  SSH client is created. \<^verbatim>\<open>main\<close> ends with \<^verbatim>\<open>process.exit(0)\<close> exactly when the
  configuration could be built; otherwise no check is made and the promise of \<^verbatim>\<open>main\<close>
  is rejected. In this mode \<^verbatim>\<open>main\<close> never calls \<^verbatim>\<open>process.exit\<close> with another code and
  never reaches the steady state.
\<close>

theorem check_only_mode:
  assumes "(\<exists>v. e ''SSH_CHECK_ONLY'' = Some v \<and> v \<noteq> []) \<or> ''check'' \<in> set argv"
  shows "(case sshConnectionConfigFromEnv pf e of
            Inr (cfg, url) \<Rightarrow>
              main pf e argv r c =
                ([LogDebugSshConfig (sshConfigLogObject pf cfg),
                  CheckConnection cfg,
                  StdoutWrite (stringify_result pf (formatConnectionCheckResult pf r)),
                  StdoutWrite (EOL pf)],
                 Exit 0)
          | Inl err \<Rightarrow> main pf e argv r c = ([], UnhandledRejection err))
         \<and> (snd (main pf e argv r c) = Exit 0
              \<longleftrightarrow> (\<exists>cfg url. sshConnectionConfigFromEnv pf e = Inr (cfg, url)))
         \<and> (\<forall>n. snd (main pf e argv r c) = Exit n \<longrightarrow> n = 0)
         \<and> snd (main pf e argv r c) \<noteq> Running"
proof -
  from assms have "check_only e argv"
    by (auto simp: check_only_def truthy_def)
  then show ?thesis
    by (auto simp: main_def split: sum.splits prod.splits)
qed

theorem check_only_mode_witness:
  "''check'' \<in> set [''node'', ''main.js'', ''check'']
   \<and> main example_platform example_env [''node'', ''main.js'', ''check'']
        \<lparr>unverifiedHostKey = Some ''K2'', error = None, rest = ()\<rparr> SshConnected
      = ([LogDebugSshConfig (sshConfigLogObject example_platform example_config),
          CheckConnection example_config,
          StdoutWrite ''{unverifiedHostKey:pub:K2}'',
          StdoutWrite [CHR 10]],
         Exit 0)
   \<and> (\<exists>v. (example_env(''SSH_CHECK_ONLY'' \<mapsto> ''1'')) ''SSH_CHECK_ONLY'' = Some v \<and> v \<noteq> [])
   \<and> snd (main example_platform (example_env(''SSH_CHECK_ONLY'' \<mapsto> ''1'')) [''node'', ''main.js'']
        \<lparr>unverifiedHostKey = None, error = Some (example_error ''refused''), rest = ()\<rparr>
        SshConnected) = Exit 0"
proof -
  have h: "(\<exists>v. example_env ''SSH_CHECK_ONLY'' = Some v \<and> v \<noteq> [])
      \<or> ''check'' \<in> set [''node'', ''main.js'', ''check'']"
    by simp
  let ?r = "\<lparr>unverifiedHostKey = Some ''K2'', error = None, rest = ()\<rparr>"
  have doc: "stringify_result example_platform (formatConnectionCheckResult example_platform ?r)
      = ''{unverifiedHostKey:pub:K2}''"
    and eol: "EOL example_platform = [CHR 10]"
    by (simp_all add: formatConnectionCheckResult_def example_platform_def)
  from check_only_mode [of example_env "[''node'', ''main.js'', ''check'']" example_platform ?r SshConnected, OF h]
  have "main example_platform example_env [''node'', ''main.js'', ''check''] ?r SshConnected
      = ([LogDebugSshConfig (sshConfigLogObject example_platform example_config),
          CheckConnection example_config,
          StdoutWrite (stringify_result example_platform
                         (formatConnectionCheckResult example_platform ?r)),
          StdoutWrite (EOL example_platform)],
         Exit 0)"
    by (simp add: example_config_from_env)
  then have 1: "main example_platform example_env [''node'', ''main.js'', ''check''] ?r SshConnected
      = ([LogDebugSshConfig (sshConfigLogObject example_platform example_config),
          CheckConnection example_config,
          StdoutWrite ''{unverifiedHostKey:pub:K2}'',
          StdoutWrite [CHR 10]],
         Exit 0)"
    by (simp only: doc eol)
  let ?e = "example_env(''SSH_CHECK_ONLY'' \<mapsto> ''1'')"
  let ?r' = "\<lparr>unverifiedHostKey = None, error = Some (example_error ''refused''), rest = ()\<rparr>"
  have h': "\<exists>v. ?e ''SSH_CHECK_ONLY'' = Some v \<and> v \<noteq> []"
    by simp
  then have h'': "(\<exists>v. ?e ''SSH_CHECK_ONLY'' = Some v \<and> v \<noteq> [])
      \<or> ''check'' \<in> set [''node'', ''main.js'']"
    by blast
  have cfg: "sshConnectionConfigFromEnv example_platform ?e = Inr (example_config, ''ssh://h:22'')"
    by (simp add: sshConnectionConfigFromEnv_def example_platform_def example_env_def
      example_config_def requiredEnv_def clientPrivateKeyFromEnv_def truthy_def
      filter_Boolean_def js_nullish_def js_or_undefined_def)
  from check_only_mode [of ?e "[''node'', ''main.js'']" example_platform ?r' SshConnected, OF h''] cfg
  have 2: "snd (main example_platform ?e [''node'', ''main.js''] ?r' SshConnected) = Exit 0"
    by simp
  from 1 2 h' show ?thesis by simp
qed

text \<open>
  Claim C1. The host-key policy of the Connection Checker, for a handshake in which the
  server presents the key \<open>k\<close>: when \<open>k\<close> is in the pinned set, or the pinned set is empty
  and insecure-skip-verify is set, and authentication then succeeds, the result is \<open>Ok\<close>;
  in every other case of the policy the result is \<open>UnverifiedHostKey k\<close>. In particular,
  with the pinned set \<open>{K}\<close>, a presented key other than \<open>K\<close> and insecure-skip-verify off,
  the result is \<open>UnverifiedHostKey k\<close>.
\<close>

theorem checkConnection_host_key_policy:
  "(k \<in> set (knownServerPublicKeys cfg) \<longrightarrow>
      checkConnection cfg (HostKeyPresented k None) = Ok)
   \<and> (knownServerPublicKeys cfg = [] \<and> insecureSkipVerify cfg \<longrightarrow>
      checkConnection cfg (HostKeyPresented k None) = Ok)
   \<and> (k \<notin> set (knownServerPublicKeys cfg)
        \<and> \<not> (knownServerPublicKeys cfg = [] \<and> insecureSkipVerify cfg) \<longrightarrow>
      checkConnection cfg (HostKeyPresented k auth) = UnverifiedHostKey k)
   \<and> (knownServerPublicKeys cfg = [K] \<and> k \<noteq> K \<and> \<not> insecureSkipVerify cfg \<longrightarrow>
      checkConnection cfg (HostKeyPresented k auth) = UnverifiedHostKey k)"
  by (simp add: checkConnection_def)

theorem checkConnection_host_key_policy_witness:
  "checkConnection example_config (HostKeyPresented ''K'' None) = Ok
   \<and> checkConnection (example_config\<lparr>knownServerPublicKeys := []\<rparr>)
        (HostKeyPresented ''K2'' None) = Ok
   \<and> checkConnection example_config (HostKeyPresented ''K2'' None) = UnverifiedHostKey ''K2''
   \<and> checkConnection (example_config\<lparr>insecureSkipVerify := False\<rparr>)
        (HostKeyPresented ''K2'' None) = UnverifiedHostKey ''K2''"
proof -
  from checkConnection_host_key_policy [of "''K''" example_config]
  have 1: "checkConnection example_config (HostKeyPresented ''K'' None) = Ok"
    by (simp add: example_config_def)
  from checkConnection_host_key_policy [of "''K2''" "example_config\<lparr>knownServerPublicKeys := []\<rparr>"]
  have 2: "checkConnection (example_config\<lparr>knownServerPublicKeys := []\<rparr>)
        (HostKeyPresented ''K2'' None) = Ok"
    by (simp add: example_config_def)
  from checkConnection_host_key_policy [of "''K2''" example_config None]
  have 3: "checkConnection example_config (HostKeyPresented ''K2'' None) = UnverifiedHostKey ''K2''"
    by (simp add: example_config_def)
  from checkConnection_host_key_policy [of "''K2''" "example_config\<lparr>insecureSkipVerify := False\<rparr>"
      None "''K''"]
  have 4: "checkConnection (example_config\<lparr>insecureSkipVerify := False\<rparr>)
        (HostKeyPresented ''K2'' None) = UnverifiedHostKey ''K2''"
    by (simp add: example_config_def)
  from 1 2 3 4 show ?thesis by blast
qed

subsection \<open>The steady state\<close>

lemma step_exited: "exited p \<noteq> None \<Longrightarrow> step pf j p = p"
  by (simp add: step_def)

lemma exec_exited: "exited p \<noteq> None \<Longrightarrow> exec pf js p = p"
  by (induction js) (simp_all add: step_exited)

lemma exec_append: "exec pf (js @ js') p = exec pf js' (exec pf js p)"
  by (induction js arbitrary: p) simp_all

lemma published_append_nonempty: "published pre \<noteq> [] \<Longrightarrow> published (pre @ post) \<noteq> []"
  by (induction pre rule: published.induct) simp_all

lemma coherent_step: "coherent p \<Longrightarrow> coherent (step pf j p)"
  by (cases j) (auto simp: coherent_def step_def Let_def split: list.splits)

lemma coherent_exec: "coherent p \<Longrightarrow> coherent (exec pf js p)"
  by (induction js arbitrary: p) (simp_all add: coherent_step)

lemma coherent_init: "coherent init_proc"
  by (simp add: coherent_def init_proc_def)

lemma exit_job_step:
  "exited p = None \<Longrightarrow> is_exit_job j \<Longrightarrow>
     exited (step pf j p) = Some 1 \<and> state (step pf j p) = state p
     \<and> initResolved (step pf j p) = initResolved p \<and> waiting (step pf j p) = waiting p
     \<and> ready (step pf j p) = ready p \<and> delivered (step pf j p) = delivered p
     \<and> stdout (step pf j p) = stdout p"
  by (cases j) (simp_all add: step_def)

lemma other_job_step:
  "exited p = None \<Longrightarrow> \<not> is_exit_job j \<Longrightarrow> exited (step pf j p) = None"
  by (cases j) (simp_all add: step_def Let_def split: list.splits)

lemma exit_job_published: "is_exit_job j \<Longrightarrow> published (j # js) = [] \<and> calls (j # js) = []"
  by (cases j) simp_all

lemma exec_track:
  "exited p = None \<Longrightarrow>
     state (exec pf js p) = (if published js = [] then state p else Some (last (published js)))
     \<and> initResolved (exec pf js p) = (initResolved p \<or> published js \<noteq> [])"
proof (induction js arbitrary: p)
  case Nil
  then show ?case by simp
next
  case (Cons j js)
  let ?p = "step pf j p"
  show ?case
  proof (cases "is_exit_job j")
    case True
    with Cons.prems exit_job_step [of p j pf] exit_job_published [of j js] show ?thesis
      by (simp add: exec_exited)
  next
    case False
    with Cons.prems have live: "exited ?p = None" by (rule other_job_step)
    note IH = Cons.IH [OF live]
    show ?thesis
    proof (cases j)
      case (UpdateTunnelsResolved s)
      with Cons.prems have "state ?p = Some s" "initResolved ?p"
        by (simp_all add: step_def Let_def)
      with IH UpdateTunnelsResolved show ?thesis by simp
    next
      case (GetSshState c)
      with Cons.prems have "state ?p = state p" "initResolved ?p = initResolved p"
        by (simp_all add: step_def)
      with IH GetSshState show ?thesis by simp
    next
      case RunThen
      with Cons.prems have "state ?p = state p" "initResolved ?p = initResolved p"
        by (simp_all add: step_def split: list.splits)
      with IH RunThen show ?thesis by simp
    next
      case (SshClientError err)
      with False show ?thesis by simp
    next
      case (WebServerError err)
      with False show ?thesis by simp
    qed
  qed
qed

lemma callers_step:
  "exited p = None \<Longrightarrow> coherent p \<Longrightarrow> \<not> is_exit_job j \<Longrightarrow>
     map fst (delivered (step pf j p)) @ ready (step pf j p) @ waiting (step pf j p)
       = map fst (delivered p) @ ready p @ waiting p @ calls [j]"
  by (cases j) (auto simp: step_def Let_def coherent_def split: list.splits)

lemma calls_Cons: "\<not> is_exit_job j \<Longrightarrow> calls (j # js) = calls [j] @ calls js"
  by (cases j) simp_all

lemma callers_exec:
  "exited p = None \<Longrightarrow> coherent p \<Longrightarrow>
     map fst (delivered (exec pf js p)) @ ready (exec pf js p) @ waiting (exec pf js p)
       = map fst (delivered p) @ ready p @ waiting p @ calls js"
proof (induction js arbitrary: p)
  case Nil
  then show ?case by simp
next
  case (Cons j js)
  let ?p = "step pf j p"
  show ?case
  proof (cases "is_exit_job j")
    case True
    with Cons.prems(1) exit_job_step [of p j pf] exit_job_published [of j js] show ?thesis
      by (simp add: exec_exited)
  next
    case False
    with Cons.prems have live: "exited ?p = None" by (simp add: other_job_step)
    from Cons.prems have coh: "coherent ?p" by (simp add: coherent_step)
    from Cons.IH [OF live coh] callers_step [OF Cons.prems False, of pf] calls_Cons [OF False, of js]
    show ?thesis by simp
  qed
qed

lemma run_ready:
  "exited p = None \<Longrightarrow> ready p = rs \<Longrightarrow>
     delivered (exec pf (replicate (length rs) RunThen) p)
        = delivered p @ map (\<lambda>c. (c, state p)) rs
     \<and> ready (exec pf (replicate (length rs) RunThen) p) = []
     \<and> state (exec pf (replicate (length rs) RunThen) p) = state p
     \<and> exited (exec pf (replicate (length rs) RunThen) p) = None"
proof (induction rs arbitrary: p)
  case Nil
  then show ?case by simp
next
  case (Cons c cs)
  let ?p = "step pf RunThen p"
  from Cons.prems have 1: "exited ?p = None" "ready ?p = cs" "state ?p = state p"
    "delivered ?p = delivered p @ [(c, state p)]"
    by (simp_all add: step_def)
  from Cons.IH [OF 1(1,2)] 1(3,4) show ?case by simp
qed

lemma alive_exec:
  "exited p = None \<Longrightarrow>
     (exited (exec pf js p) = None \<longleftrightarrow> (\<forall>j \<in> set js. \<not> is_exit_job j))
     \<and> (exited (exec pf js p) = None \<or> exited (exec pf js p) = Some 1)"
proof (induction js arbitrary: p)
  case Nil
  then show ?case by simp
next
  case (Cons j js)
  show ?case
  proof (cases "is_exit_job j")
    case True
    with Cons.prems exit_job_step [of p j pf] show ?thesis
      by (simp add: exec_exited)
  next
    case False
    with Cons.prems have "exited (step pf j p) = None" by (simp add: other_job_step)
    from Cons.IH [OF this] False show ?thesis by auto
  qed
qed

text \<open>
  Standard output after a run of jobs: two writes for each state published, and nothing
  else.
\<close>

lemma stdout_exec:
  "exited p = None \<Longrightarrow>
   stdout (exec pf js p) =
     stdout p @ concat (map (\<lambda>s. [stringify_state pf s, EOL pf]) (published js))"
proof (induction js arbitrary: p)
  case Nil
  then show ?case by simp
next
  case (Cons j js)
  let ?p = "step pf j p"
  show ?case
  proof (cases j)
    case (UpdateTunnelsResolved s)
    with Cons.prems have "exited ?p = None"
      and "stdout ?p = stdout p @ [stringify_state pf s, EOL pf]"
      by (simp_all add: step_def Let_def)
    with Cons.IH [of ?p] UpdateTunnelsResolved show ?thesis by simp
  next
    case (GetSshState c)
    with Cons.prems have "exited ?p = None" and "stdout ?p = stdout p"
      by (simp_all add: step_def)
    with Cons.IH [of ?p] GetSshState show ?thesis by simp
  next
    case RunThen
    with Cons.prems have "exited ?p = None" and "stdout ?p = stdout p"
      by (simp_all add: step_def split: list.splits)
    with Cons.IH [of ?p] RunThen show ?thesis by simp
  next
    case (SshClientError err)
    with Cons.prems have "exited ?p \<noteq> None" and "stdout ?p = stdout p"
      by (simp_all add: step_def)
    with SshClientError show ?thesis by (simp add: exec_exited)
  next
    case (WebServerError err)
    with Cons.prems have "exited ?p \<noteq> None" and "stdout ?p = stdout p"
      by (simp_all add: step_def)
    with WebServerError show ?thesis by (simp add: exec_exited)
  qed
qed

text \<open>
  Claim C5. Every completed reconciliation cycle, so in particular every one whose state
  differs from the one before, writes the JSON text of the new state and then the end of
  line to standard output and makes that state the current one; nothing else is written
  to standard output in the steady state. The write is made whether or not the state
  differs from the previous one.
\<close>

theorem stdout_one_document_per_cycle:
  "stdout (exec pf js init_proc)
     = concat (map (\<lambda>s. [stringify_state pf s, EOL pf]) (published js))
   \<and> (exited p = None \<longrightarrow>
        stdout (step pf (UpdateTunnelsResolved s) p) = stdout p @ [stringify_state pf s, EOL pf]
        \<and> state (step pf (UpdateTunnelsResolved s) p) = Some s)"
proof -
  from stdout_exec [of init_proc pf js]
  have "stdout (exec pf js init_proc)
     = concat (map (\<lambda>s. [stringify_state pf s, EOL pf]) (published js))"
    by (simp add: init_proc_def)
  then show ?thesis
    by (simp add: step_def Let_def)
qed

theorem stdout_one_document_per_cycle_witness:
  "exited (init_proc :: string proc) = None
   \<and> stdout (step example_platform (UpdateTunnelsResolved ''{}'') init_proc) = [''{}'', [CHR 10]]
   \<and> state (step example_platform (UpdateTunnelsResolved ''{}'') init_proc) = Some ''{}''
   \<and> stdout (exec example_platform
        [UpdateTunnelsResolved ''{}'', GetSshState 1, UpdateTunnelsResolved ''{}'',
         UpdateTunnelsResolved ''{a}''] init_proc)
      = [''{}'', [CHR 10], ''{}'', [CHR 10], ''{a}'', [CHR 10]]"
proof -
  have h: "exited (init_proc :: string proc) = None" "stdout (init_proc :: string proc) = []"
    by (simp_all add: init_proc_def)
  have pf: "stringify_state example_platform = (\<lambda>s. s)" "EOL example_platform = [CHR 10]"
    by (simp_all add: example_platform_def)
  from stdout_one_document_per_cycle [of example_platform
      "[UpdateTunnelsResolved ''{}'', GetSshState 1, UpdateTunnelsResolved ''{}'',
        UpdateTunnelsResolved ''{a}'']" init_proc "''{}''"] h
  show ?thesis
    by (simp add: pf)
qed

text \<open>
  A value delivered in a run from a coherent start was delivered before the run, or by a
  job \<open>RunThen\<close> of the run that appended it, and then it is the state published last
  before that job.
\<close>

lemma delivered_exec:
  "coherent p \<Longrightarrow> (c, v) \<in> set (delivered (exec pf js p)) \<Longrightarrow>
   (c, v) \<in> set (delivered p) \<or>
   (\<exists>pre post. js = pre @ RunThen # post \<and>
      v = (if published pre = [] then state p else Some (last (published pre))) \<and>
      (published pre \<noteq> [] \<or> initResolved p) \<and>
      delivered (exec pf (pre @ [RunThen]) p) = delivered (exec pf pre p) @ [(c, v)])"
proof (induction js arbitrary: p)
  case Nil
  then show ?case by simp
next
  case (Cons j js)
  let ?p = "step pf j p"
  show ?case
  proof (cases "exited p = None")
    case False
    with Cons.prems show ?thesis by (simp add: exec_exited step_exited)
  next
    case live: True
    have coh: "coherent ?p" using Cons.prems(1) by (rule coherent_step)
    from Cons.prems(2) have "(c, v) \<in> set (delivered (exec pf js ?p))" by simp
    from Cons.IH [OF coh this] consider
      (old) "(c, v) \<in> set (delivered ?p)"
      | (new) pre post where "js = pre @ RunThen # post"
        "v = (if published pre = [] then state ?p else Some (last (published pre)))"
        "published pre \<noteq> [] \<or> initResolved ?p"
        "delivered (exec pf (pre @ [RunThen]) ?p) = delivered (exec pf pre ?p) @ [(c, v)]"
      by blast
    then show ?thesis
    proof cases
      case old
      show ?thesis
      proof (cases "(c, v) \<in> set (delivered p)")
        case True
        then show ?thesis by simp
      next
        case False
        from old False live have j: "j = RunThen"
          by (cases j) (auto simp: step_def Let_def split: list.splits if_splits)
        from old False live j have r: "ready p \<noteq> []"
          by (auto simp: step_def)
        from r obtain c' cs where rs: "ready p = c' # cs" by (cases "ready p") auto
        with live j have d: "delivered ?p = delivered p @ [(c', state p)]"
          by (simp add: step_def)
        with old False have cv: "c = c'" "v = state p" by auto
        from r Cons.prems(1) have "initResolved p" by (simp add: coherent_def)
        with j cv d have "j # js = [] @ RunThen # js \<and>
            v = (if published [] = [] then state p else Some (last (published []))) \<and>
            (published [] \<noteq> [] \<or> initResolved p) \<and>
            delivered (exec pf ([] @ [RunThen]) p) = delivered (exec pf [] p) @ [(c, v)]"
          by simp
        then show ?thesis by blast
      qed
    next
      case new
      have ext: "state ?p = (if published [j] = [] then state p else Some (last (published [j])))
          \<Longrightarrow> initResolved ?p = (initResolved p \<or> published [j] \<noteq> [])
          \<Longrightarrow> published (j # pre) = published [j] @ published pre
          \<Longrightarrow> ?thesis"
      proof -
        assume st: "state ?p = (if published [j] = [] then state p else Some (last (published [j])))"
          and ini: "initResolved ?p = (initResolved p \<or> published [j] \<noteq> [])"
          and pub: "published (j # pre) = published [j] @ published pre"
        from new st ini pub have "j # js = (j # pre) @ RunThen # post \<and>
            v = (if published (j # pre) = [] then state p
                 else Some (last (published (j # pre)))) \<and>
            (published (j # pre) \<noteq> [] \<or> initResolved p) \<and>
            delivered (exec pf ((j # pre) @ [RunThen]) p)
              = delivered (exec pf (j # pre) p) @ [(c, v)]"
          by (auto split: if_splits)
        then show ?thesis by blast
      qed
      show ?thesis
      proof (cases j)
        case (UpdateTunnelsResolved s)
        with live show ?thesis by (intro ext) (simp_all add: step_def Let_def)
      next
        case (GetSshState c')
        with live show ?thesis by (intro ext) (simp_all add: step_def)
      next
        case RunThen
        with live show ?thesis by (intro ext) (simp_all add: step_def split: list.splits)
      next
        case (SshClientError err)
        with live have "exited ?p \<noteq> None" "delivered ?p = delivered p"
          by (simp_all add: step_def)
        with Cons.prems(2) show ?thesis by (simp add: exec_exited)
      next
        case (WebServerError err)
        with live have "exited ?p \<noteq> None" "delivered ?p = delivered p"
          by (simp_all add: step_def)
        with Cons.prems(2) show ?thesis by (simp add: exec_exited)
      qed
    qed
  qed
qed

lemma delivered_from_init:
  assumes "(c, v) \<in> set (delivered (exec pf js init_proc))"
  shows "\<exists>pre post. js = pre @ RunThen # post \<and> published pre \<noteq> []
           \<and> v = Some (last (published pre))
           \<and> delivered (exec pf (pre @ [RunThen]) init_proc)
                = delivered (exec pf pre init_proc) @ [(c, v)]"
proof -
  from delivered_exec [OF coherent_init assms] show ?thesis
    by (auto simp: init_proc_def)
qed

lemma init_fields:
  "exited init_proc = None" "state init_proc = None" "\<not> initResolved init_proc"
  "delivered init_proc = []" "ready init_proc = []" "waiting init_proc = []"
  by (simp_all add: init_proc_def)

text \<open>The state reached from the start by a run of jobs.\<close>

lemma reached:
  fixes pf :: "('p, 'a, 's) platform"
  assumes p: "p = exec pf js init_proc"
  shows "coherent p"
    and "state p = (if published js = [] then None else Some (last (published js)))"
    and "initResolved p = (published js \<noteq> [])"
    and "map fst (delivered p) @ ready p @ waiting p = calls js"
    and "published js = [] \<Longrightarrow> delivered p = [] \<and> ready p = [] \<and> waiting p = calls js"
    and "published js \<noteq> [] \<Longrightarrow> waiting p = []"
proof -
  show coh: "coherent p" unfolding p by (rule coherent_exec [OF coherent_init])
  from exec_track [of init_proc pf js]
  show st: "state p = (if published js = [] then None else Some (last (published js)))"
    and ini: "initResolved p = (published js \<noteq> [])"
    unfolding p by (simp_all add: init_fields)
  from callers_exec [of init_proc pf js, OF _ coherent_init]
  show cs: "map fst (delivered p) @ ready p @ waiting p = calls js"
    unfolding p by (simp add: init_fields)
  {
    assume none: "published js = []"
    with ini coh have r: "ready p = []" by (auto simp: coherent_def)
    have d: "delivered p = []"
    proof (rule ccontr)
      assume "delivered p \<noteq> []"
      then obtain c' v' where "(c', v') \<in> set (delivered (exec pf js init_proc))"
        unfolding p by (cases "delivered (exec pf js init_proc)") auto
      from delivered_from_init [OF this] obtain pre post
        where "js = pre @ RunThen # post" "published pre \<noteq> []" by blast
      with published_append_nonempty [of pre "RunThen # post"] none show False by simp
    qed
    with r cs show "delivered p = [] \<and> ready p = [] \<and> waiting p = calls js" by simp
  }
  {
    assume "published js \<noteq> []"
    with ini coh show "waiting p = []" by (simp add: coherent_def)
  }
qed

lemma call_then_run:
  assumes "exited p = None" "ready p = []" "initResolved p"
  shows "delivered (exec pf [GetSshState c, RunThen] p) = delivered p @ [(c, state p)]"
  using assms by (simp add: step_def)

lemma first_cycle_step:
  assumes "exited p = None" "\<not> initResolved p" "ready p = []"
  shows "ready (step pf (UpdateTunnelsResolved s) p) = waiting p"
    and "waiting (step pf (UpdateTunnelsResolved s) p) = []"
    and "state (step pf (UpdateTunnelsResolved s) p) = Some s"
    and "delivered (step pf (UpdateTunnelsResolved s) p) = delivered p"
    and "exited (step pf (UpdateTunnelsResolved s) p) = None"
  using assms by (simp_all add: step_def Let_def)

lemma call_step:
  assumes "exited p = None" "initResolved p"
  shows "ready (step pf (GetSshState c) p) = ready p @ [c]"
    and "state (step pf (GetSshState c) p) = state p"
    and "delivered (step pf (GetSshState c) p) = delivered p"
    and "exited (step pf (GetSshState c) p) = None"
  using assms by (simp_all add: step_def)

lemma run_then_step:
  assumes "exited p = None" "ready p = c # cs"
  shows "ready (step pf RunThen p) = cs"
    and "delivered (step pf RunThen p) = delivered p @ [(c, state p)]"
    and "state (step pf RunThen p) = state p"
    and "waiting (step pf RunThen p) = waiting p"
    and "exited (step pf RunThen p) = None"
  using assms by (simp_all add: step_def)

lemma only_RunThen_delivers: "j \<noteq> RunThen \<Longrightarrow> delivered (step pf j p) = delivered p"
  by (cases j) (simp_all add: step_def Let_def)

text \<open>
  Claim C4. In every run of the steady state from its start:
  \<^item> a value that a call of \<^verbatim>\<open>getSshState\<close> yields was appended by a callback that ran
    after at least one reconciliation cycle had completed, and it is the state published
    last before that callback ran;
  \<^item> while no cycle has completed nothing is delivered and no callback is queued: every
    caller so far is waiting;
  \<^item> no caller is lost or answered twice: the callers answered, queued and waiting are, in
    this order, the callers of the run;
  \<^item> the first completed cycle queues every waiting caller, and leaves none waiting;
  \<^item> a callback that runs answers the first queued caller, and no other, with the state
    published last; no other job delivers anything;
  \<^item> once a state has been published, a new call is answered after the calls queued before
    it, all with the state published last; the callers blocked before the first cycle are
    all answered with the first state.
\<close>

theorem getSshState_after_first_cycle_latest_state:
  fixes pf :: "('p, 'a, 's) platform"
  assumes p: "p = exec pf js init_proc"
  shows
   "((c, v) \<in> set (delivered p) \<longrightarrow>
       (\<exists>pre post. js = pre @ RunThen # post \<and> published pre \<noteq> []
          \<and> v = Some (last (published pre))
          \<and> delivered (exec pf (pre @ [RunThen]) init_proc)
               = delivered (exec pf pre init_proc) @ [(c, v)]))
    \<and> (published js = [] \<longrightarrow> delivered p = [] \<and> ready p = [] \<and> waiting p = calls js)
    \<and> (published js \<noteq> [] \<longrightarrow> waiting p = [])
    \<and> map fst (delivered p) @ ready p @ waiting p = calls js
    \<and> (exited p = None \<and> published js = [] \<longrightarrow>
         ready (step pf (UpdateTunnelsResolved s) p) = calls js
         \<and> waiting (step pf (UpdateTunnelsResolved s) p) = []
         \<and> state (step pf (UpdateTunnelsResolved s) p) = Some s
         \<and> delivered (step pf (UpdateTunnelsResolved s) p) = [])
    \<and> (exited p = None \<longrightarrow>
         (\<forall>c' cs. ready p = c' # cs \<longrightarrow>
            published js \<noteq> []
            \<and> delivered (step pf RunThen p) = delivered p @ [(c', Some (last (published js)))]
            \<and> ready (step pf RunThen p) = cs
            \<and> waiting (step pf RunThen p) = waiting p
            \<and> state (step pf RunThen p) = state p))
    \<and> (ready p = [] \<longrightarrow> step pf RunThen p = p)
    \<and> (j \<noteq> RunThen \<longrightarrow> delivered (step pf j p) = delivered p)
    \<and> (exited p = None \<and> published js \<noteq> [] \<longrightarrow>
         delivered (exec pf (js @ GetSshState c # replicate (Suc (length (ready p))) RunThen)
                      init_proc)
           = delivered p @ map (\<lambda>c'. (c', Some (last (published js)))) (ready p @ [c]))
    \<and> (exited p = None \<and> published js = [] \<longrightarrow>
         delivered (exec pf (js @ UpdateTunnelsResolved s # replicate (length (calls js)) RunThen)
                      init_proc)
           = map (\<lambda>c'. (c', Some s)) (calls js))
    \<and> (exited p = None \<and> ready p = [] \<and> published js \<noteq> [] \<longrightarrow>
         delivered (exec pf (js @ [GetSshState c, RunThen]) init_proc)
           = delivered p @ [(c, Some (last (published js)))])"
proof -
  note R = reached [OF p]
  have A: "(c, v) \<in> set (delivered p) \<longrightarrow>
       (\<exists>pre post. js = pre @ RunThen # post \<and> published pre \<noteq> []
          \<and> v = Some (last (published pre))
          \<and> delivered (exec pf (pre @ [RunThen]) init_proc)
               = delivered (exec pf pre init_proc) @ [(c, v)])"
    unfolding p by (blast dest: delivered_from_init)
  have B: "published js = [] \<longrightarrow> delivered p = [] \<and> ready p = [] \<and> waiting p = calls js"
    using R(5) by blast
  have C: "published js \<noteq> [] \<longrightarrow> waiting p = []"
    using R(6) by blast
  have E: "exited p = None \<and> published js = [] \<longrightarrow>
         ready (step pf (UpdateTunnelsResolved s) p) = calls js
         \<and> waiting (step pf (UpdateTunnelsResolved s) p) = []
         \<and> state (step pf (UpdateTunnelsResolved s) p) = Some s
         \<and> delivered (step pf (UpdateTunnelsResolved s) p) = []"
  proof
    assume a: "exited p = None \<and> published js = []"
    with R(3) R(5) have "\<not> initResolved p" "ready p = []" "waiting p = calls js" "delivered p = []"
      by simp_all
    with first_cycle_step [of p pf s] a show "ready (step pf (UpdateTunnelsResolved s) p) = calls js
         \<and> waiting (step pf (UpdateTunnelsResolved s) p) = []
         \<and> state (step pf (UpdateTunnelsResolved s) p) = Some s
         \<and> delivered (step pf (UpdateTunnelsResolved s) p) = []"
      by simp
  qed
  have F: "exited p = None \<longrightarrow>
         (\<forall>c' cs. ready p = c' # cs \<longrightarrow>
            published js \<noteq> []
            \<and> delivered (step pf RunThen p) = delivered p @ [(c', Some (last (published js)))]
            \<and> ready (step pf RunThen p) = cs
            \<and> waiting (step pf RunThen p) = waiting p
            \<and> state (step pf RunThen p) = state p)"
  proof (intro impI allI)
    fix c' cs
    assume live: "exited p = None" and r: "ready p = c' # cs"
    from r R(5) have pub: "published js \<noteq> []" by auto
    with R(2) have "state p = Some (last (published js))" by simp
    with run_then_step [OF live r, of pf] pub
    show "published js \<noteq> []
            \<and> delivered (step pf RunThen p) = delivered p @ [(c', Some (last (published js)))]
            \<and> ready (step pf RunThen p) = cs
            \<and> waiting (step pf RunThen p) = waiting p
            \<and> state (step pf RunThen p) = state p"
      by simp
  qed
  have G: "ready p = [] \<longrightarrow> step pf RunThen p = p"
    by (simp add: step_def)
  have H: "j \<noteq> RunThen \<longrightarrow> delivered (step pf j p) = delivered p"
    by (simp add: only_RunThen_delivers)
  have I: "exited p = None \<and> published js \<noteq> [] \<longrightarrow>
         delivered (exec pf (js @ GetSshState c # replicate (Suc (length (ready p))) RunThen)
                      init_proc)
           = delivered p @ map (\<lambda>c'. (c', Some (last (published js)))) (ready p @ [c])"
  proof
    assume a: "exited p = None \<and> published js \<noteq> []"
    let ?q = "step pf (GetSshState c) p"
    from a R(2) R(3) have live: "exited p = None" and ini: "initResolved p"
      and st: "state p = Some (last (published js))" by simp_all
    note q = call_step [OF live ini, of pf c]
    from run_ready [OF q(4) q(1), of pf] q(2) q(3) st
    have "delivered (exec pf (replicate (Suc (length (ready p))) RunThen) ?q)
        = delivered p @ map (\<lambda>c'. (c', Some (last (published js)))) (ready p @ [c])"
      by simp
    then show "delivered (exec pf (js @ GetSshState c # replicate (Suc (length (ready p))) RunThen)
                      init_proc)
           = delivered p @ map (\<lambda>c'. (c', Some (last (published js)))) (ready p @ [c])"
      unfolding p by (simp add: exec_append)
  qed
  have J: "exited p = None \<and> published js = [] \<longrightarrow>
         delivered (exec pf (js @ UpdateTunnelsResolved s # replicate (length (calls js)) RunThen)
                      init_proc)
           = map (\<lambda>c'. (c', Some s)) (calls js)"
  proof
    assume a: "exited p = None \<and> published js = []"
    let ?q = "step pf (UpdateTunnelsResolved s) p"
    from a R(3) R(5) have live: "exited p = None" and "\<not> initResolved p" "ready p = []"
      and w: "waiting p = calls js" and d: "delivered p = []"
      by simp_all
    note q = first_cycle_step [OF this(1,2,3), of pf s]
    from q(1) w have r: "ready ?q = calls js" by simp
    from run_ready [OF q(5) r, of pf] q(3) q(4) d
    have "delivered (exec pf (replicate (length (calls js)) RunThen) ?q)
        = map (\<lambda>c'. (c', Some s)) (calls js)"
      by simp
    then show "delivered (exec pf (js @ UpdateTunnelsResolved s # replicate (length (calls js)) RunThen)
                      init_proc)
           = map (\<lambda>c'. (c', Some s)) (calls js)"
      unfolding p by (simp add: exec_append)
  qed
  have K: "exited p = None \<and> ready p = [] \<and> published js \<noteq> [] \<longrightarrow>
         delivered (exec pf (js @ [GetSshState c, RunThen]) init_proc)
           = delivered p @ [(c, Some (last (published js)))]"
  proof
    assume a: "exited p = None \<and> ready p = [] \<and> published js \<noteq> []"
    with R(2) R(3) have "exited p = None" "ready p = []" "initResolved p"
      and st: "state p = Some (last (published js))" by simp_all
    from call_then_run [OF this(1,2,3), of pf c] st
    show "delivered (exec pf (js @ [GetSshState c, RunThen]) init_proc)
           = delivered p @ [(c, Some (last (published js)))]"
      unfolding p by (simp add: exec_append)
  qed
  from A B C R(4) E F G H I J K show ?thesis by blast
qed

theorem getSshState_after_first_cycle_latest_state_witness:
  "(1, Some ''A'') \<in> set (delivered (exec example_platform
       [GetSshState 1, UpdateTunnelsResolved ''A'', RunThen] init_proc))
   \<and> (\<exists>pre post. [GetSshState 1, UpdateTunnelsResolved ''A'', RunThen] = pre @ RunThen # post
         \<and> published pre \<noteq> [] \<and> Some ''A'' = Some (last (published pre)))
   \<and> published [GetSshState 1, GetSshState 2 :: string job] = []
   \<and> delivered (exec example_platform [GetSshState 1, GetSshState 2] init_proc) = []
   \<and> waiting (exec example_platform [GetSshState 1, GetSshState 2] init_proc) = [1, 2]
   \<and> ready (step example_platform (UpdateTunnelsResolved ''A'')
        (exec example_platform [GetSshState 1, GetSshState 2] init_proc)) = [1, 2]
   \<and> delivered (exec example_platform
        ([GetSshState 1, GetSshState 2] @ [UpdateTunnelsResolved ''A'', RunThen, RunThen])
        init_proc) = [(1, Some ''A''), (2, Some ''A'')]
   \<and> ready (exec example_platform
        [UpdateTunnelsResolved ''A'', GetSshState 1, UpdateTunnelsResolved ''B''] init_proc) = [1]
   \<and> delivered (exec example_platform
        ([UpdateTunnelsResolved ''A'', GetSshState 1, UpdateTunnelsResolved ''B'']
           @ [GetSshState 2, RunThen, RunThen])
        init_proc) = [(1, Some ''B''), (2, Some ''B'')]"
proof -
  let ?js1 = "[GetSshState 1, UpdateTunnelsResolved ''A'', RunThen] :: string job list"
  let ?js2 = "[GetSshState 1, GetSshState 2] :: string job list"
  let ?js3 = "[UpdateTunnelsResolved ''A'', GetSshState 1, UpdateTunnelsResolved ''B'']
                :: string job list"
  let ?p1 = "exec example_platform ?js1 init_proc"
  let ?p2 = "exec example_platform ?js2 init_proc"
  let ?p3 = "exec example_platform ?js3 init_proc"
  have h1: "(1, Some ''A'') \<in> set (delivered ?p1)"
    by (simp add: step_def init_proc_def)
  have h2: "exited ?p2 = None \<and> published ?js2 = []"
    by (simp add: step_def init_proc_def)
  have c2: "calls ?js2 = [1, 2]"
    by simp
  have h3: "exited ?p3 = None \<and> published ?js3 \<noteq> []" and r3: "ready ?p3 = [1]"
    and d3: "delivered ?p3 = []"
    by (simp_all add: step_def init_proc_def Let_def)
  from getSshState_after_first_cycle_latest_state
    [where p = ?p1 and pf = example_platform and js = ?js1 and c = 1 and v = "Some ''A''",
     OF refl] h1
  have 1: "\<exists>pre post. ?js1 = pre @ RunThen # post
         \<and> published pre \<noteq> [] \<and> Some ''A'' = Some (last (published pre))"
    by blast
  note t2 = getSshState_after_first_cycle_latest_state
    [where p = ?p2 and pf = example_platform and js = ?js2 and s = "''A''", OF refl]
  from t2 h2 c2 have 2: "delivered ?p2 = []" "waiting ?p2 = [1, 2]"
    "ready (step example_platform (UpdateTunnelsResolved ''A'') ?p2) = [1, 2]"
    "delivered (exec example_platform
        (?js2 @ UpdateTunnelsResolved ''A'' # replicate (length [1, 2 :: nat]) RunThen)
        init_proc) = [(1, Some ''A''), (2, Some ''A'')]"
    by simp_all
  from getSshState_after_first_cycle_latest_state
    [where p = ?p3 and pf = example_platform and js = ?js3 and c = 2, OF refl] h3 r3 d3
  have 3: "delivered (exec example_platform
        (?js3 @ GetSshState 2 # replicate (Suc (length [1 :: nat])) RunThen) init_proc)
      = [(1, Some ''B''), (2, Some ''B'')]"
    by simp
  from h1 1 h2 2 r3 3 show ?thesis
    by simp
qed

subsection \<open>The SSH connection in the steady state\<close>

lemma manager_step_not_Connecting:
  "s \<noteq> Connecting \<Longrightarrow> s \<noteq> Closed \<Longrightarrow>
     fst (manager_step b ev s) \<noteq> Connecting \<and> fst (manager_step b ev s) \<noteq> Closed"
  by (cases ev; cases s) simp_all

lemma manager_step_no_onError:
  "s \<noteq> Connecting \<Longrightarrow> onError_jobs (snd (manager_step b ev s)) = ([] :: 'a job list)"
  by (cases ev; cases s) simp_all

lemma onError_jobs_append: "onError_jobs (as @ bs) = onError_jobs as @ onError_jobs bs"
  by (induction as rule: onError_jobs.induct) simp_all

lemma manager_run_append:
  "manager_run b (evs @ evs') s =
     (fst (manager_run b evs' (fst (manager_run b evs s))),
      snd (manager_run b evs s) @ snd (manager_run b evs' (fst (manager_run b evs s))))"
  by (induction evs arbitrary: s) (simp_all split: prod.splits)

lemma manager_run_connected:
  "s \<noteq> Connecting \<Longrightarrow> s \<noteq> Closed \<Longrightarrow>
     fst (manager_run b evs s) \<noteq> Connecting \<and> fst (manager_run b evs s) \<noteq> Closed"
proof (induction evs arbitrary: s)
  case Nil
  then show ?case by simp
next
  case (Cons ev evs)
  obtain s' as where st: "manager_step b ev s = (s', as)"
    by (cases "manager_step b ev s")
  from manager_step_not_Connecting [OF Cons.prems, of b ev] st
  have "s' \<noteq> Connecting" "s' \<noteq> Closed"
    by simp_all
  from Cons.IH [OF this] st show ?case
    by (auto split: prod.splits)
qed

lemma manager_run_no_onError:
  "s \<noteq> Connecting \<Longrightarrow> s \<noteq> Closed \<Longrightarrow>
     onError_jobs (snd (manager_run b evs s)) = ([] :: 'a job list)"
proof (induction evs arbitrary: s)
  case Nil
  then show ?case by simp
next
  case (Cons ev evs)
  obtain s' as where st: "manager_step b ev s = (s', as)"
    by (cases "manager_step b ev s")
  obtain s'' as' where run: "manager_run b evs s' = (s'', as')"
    by (cases "manager_run b evs s'")
  from manager_step_not_Connecting [OF Cons.prems, of b ev] st
  have s': "s' \<noteq> Connecting" "s' \<noteq> Closed"
    by simp_all
  from Cons.IH [OF s'] run have 1: "onError_jobs as' = ([] :: 'a job list)"
    by simp
  from manager_step_no_onError [OF Cons.prems(1), of b ev] st
  have 2: "onError_jobs as = ([] :: 'a job list)"
    by simp
  from 1 2 st run show ?case
    by (simp add: onError_jobs_append)
qed

lemma manager_retries:
  "manager_run b (replicate n (HandshakeFailed err)) (Reconnecting m) =
     (Reconnecting (m + n), map (\<lambda>i. ScheduleReconnect (retry_delay b (m + Suc i))) [0..<n])"
proof (induction n arbitrary: m)
  case 0
  then show ?case by simp
next
  case (Suc n)
  have "map (\<lambda>i. ScheduleReconnect (retry_delay b (m + Suc i))) [0..<Suc n] =
        ScheduleReconnect (retry_delay b (Suc m))
          # map (\<lambda>i. ScheduleReconnect (retry_delay b (Suc m + Suc i))) [0..<n]"
    by (simp add: upt_conv_Cons map_Suc_upt [symmetric] del: upt_Suc)
  with Suc.IH [of "Suc m"] show ?case by simp
qed

lemma main_steady:
  assumes "\<not> check_only e argv" "sshConnectionConfigFromEnv pf e = Inr (cfg, url)"
  shows "main pf e argv r SshConnected =
           ([LogDebugSshConfig (sshConfigLogObject pf cfg), NewDocker ''/var/run/docker.sock'',
             CreateDockerClient 500, CreateSshClient cfg, LogInfoConnected url,
             ListenToContainers, CreateWebServer, Listen (js_nullish (e ''PORT'') ''3000'')],
            Running)"
    and "main pf e argv r (SshOnError err) =
           ([LogDebugSshConfig (sshConfigLogObject pf cfg), NewDocker ''/var/run/docker.sock'',
             CreateDockerClient 500, CreateSshClient cfg, LogError err],
            Exit 1)"
    and "main pf e argv r (SshRejected err) =
           ([LogDebugSshConfig (sshConfigLogObject pf cfg), NewDocker ''/var/run/docker.sock'',
             CreateDockerClient 500, CreateSshClient cfg],
            UnhandledRejection err)"
    and "snd (main pf e argv r c) = Running \<longleftrightarrow> c = SshConnected"
proof -
  from assms show "main pf e argv r SshConnected =
           ([LogDebugSshConfig (sshConfigLogObject pf cfg), NewDocker ''/var/run/docker.sock'',
             CreateDockerClient 500, CreateSshClient cfg, LogInfoConnected url,
             ListenToContainers, CreateWebServer, Listen (js_nullish (e ''PORT'') ''3000'')],
            Running)"
    by (simp add: main_def Let_def)
  from assms show "main pf e argv r (SshOnError err) =
           ([LogDebugSshConfig (sshConfigLogObject pf cfg), NewDocker ''/var/run/docker.sock'',
             CreateDockerClient 500, CreateSshClient cfg, LogError err],
            Exit 1)"
    by (simp add: main_def Let_def)
  from assms show "main pf e argv r (SshRejected err) =
           ([LogDebugSshConfig (sshConfigLogObject pf cfg), NewDocker ''/var/run/docker.sock'',
             CreateDockerClient 500, CreateSshClient cfg],
            UnhandledRejection err)"
    by (simp add: main_def Let_def)
  from assms show "snd (main pf e argv r c) = Running \<longleftrightarrow> c = SshConnected"
    by (cases c) (simp_all add: main_def Let_def)
qed

text \<open>
  Claim C7. In steady-state mode with a configuration that could be built, \<^verbatim>\<open>main\<close>
  reaches the steady state exactly when \<^verbatim>\<open>createSshClient\<close> connects; when the client
  calls \<^verbatim>\<open>onError\<close> instead, \<^verbatim>\<open>main\<close> logs the error and calls \<^verbatim>\<open>process.exit(1)\<close>,
  and when its promise rejects, the promise of \<^verbatim>\<open>main\<close> is rejected; in both cases
  nothing of the steady state is started. In the steady state every call of \<^verbatim>\<open>onError\<close>
  ends the process with code 1, and the process ends by \<^verbatim>\<open>onError\<close> or the web server's
  error handler only. The Connection Manager calls \<^verbatim>\<open>onError\<close> for a failed initial
  handshake, which so ends the process with code 1. Once the connection is established,
  whatever happens to it, the manager never calls \<^verbatim>\<open>onError\<close> and never gives the
  connection up, so the process keeps running; a disconnect schedules a reconnection, and
  every failed attempt schedules the next one, without end, after a delay that doubles
  from the base delay (plus jitter) and never exceeds the maximum interval.
\<close>

theorem initial_connection_failure_fatal_disconnect_not:
  fixes pf :: "('p, 'a, 's) platform"
  shows
  "(\<not> check_only e argv \<and> sshConnectionConfigFromEnv pf e = Inr (cfg, url) \<longrightarrow>
      main pf e argv r SshConnected =
        ([LogDebugSshConfig (sshConfigLogObject pf cfg), NewDocker ''/var/run/docker.sock'',
          CreateDockerClient 500, CreateSshClient cfg, LogInfoConnected url,
          ListenToContainers, CreateWebServer, Listen (js_nullish (e ''PORT'') ''3000'')],
         Running)
      \<and> main pf e argv r (SshOnError err) =
        ([LogDebugSshConfig (sshConfigLogObject pf cfg), NewDocker ''/var/run/docker.sock'',
          CreateDockerClient 500, CreateSshClient cfg, LogError err],
         Exit 1)
      \<and> main pf e argv r (SshRejected err) =
        ([LogDebugSshConfig (sshConfigLogObject pf cfg), NewDocker ''/var/run/docker.sock'',
          CreateDockerClient 500, CreateSshClient cfg],
         UnhandledRejection err)
      \<and> (snd (main pf e argv r c) = Running \<longleftrightarrow> c = SshConnected))
   \<and> (exited p = None \<longrightarrow>
        exited (step pf (SshClientError err) p) = Some 1
        \<and> logged (step pf (SshClientError err) p) = logged p @ [err])
   \<and> (exited p = None \<longrightarrow>
        (exited (exec pf js p) = None \<longleftrightarrow> (\<forall>j \<in> set js. \<not> is_exit_job j))
        \<and> (exited (exec pf js p) = None \<or> exited (exec pf js p) = Some 1))
   \<and> manager_run b [HandshakeOk] Connecting = (Established, [])
   \<and> manager_run b [HandshakeFailed err] Connecting = (Closed, [CallOnError err])
   \<and> (exited p = None \<longrightarrow>
        exited (exec pf (onError_jobs (snd (manager_run b [HandshakeFailed err] Connecting))) p)
          = Some 1)
   \<and> fst (manager_run b evs Established) \<noteq> Closed
   \<and> fst (manager_run b evs Established) \<noteq> Connecting
   \<and> (\<forall>err'. CallOnError err' \<notin> set (snd (manager_run b evs Established)))
   \<and> (exited p = None \<and> (\<forall>j \<in> set js. \<not> is_exit_job j) \<longrightarrow>
        exited (exec pf (js @ onError_jobs (snd (manager_run b evs Established))) p) = None)
   \<and> (fst (manager_run b evs Established) = Established \<longrightarrow>
        manager_run b (evs @ [Disconnected]) Established
          = (Reconnecting 0,
             snd (manager_run b evs Established) @ [ScheduleReconnect (retry_delay b 0)]))
   \<and> (fst (manager_run b evs Established) = Reconnecting m \<longrightarrow>
        manager_run b (evs @ [HandshakeFailed err]) Established
          = (Reconnecting (Suc m),
             snd (manager_run b evs Established) @ [ScheduleReconnect (retry_delay b (Suc m))])
        \<and> manager_run b (evs @ [HandshakeOk]) Established
          = (Established, snd (manager_run b evs Established)))
   \<and> manager_step b (HandshakeFailed err) Connecting = (Closed, [CallOnError err])
   \<and> manager_step b Disconnected Established
        = (Reconnecting 0, [ScheduleReconnect (retry_delay b 0)])
   \<and> manager_run b (replicate n (HandshakeFailed err)) (Reconnecting 0)
        = (Reconnecting n, map (\<lambda>i. ScheduleReconnect (retry_delay b (Suc i))) [0..<n])
   \<and> retry_delay b n = min (max_interval b) (base_delay b * 2 ^ n + jitter b n)
   \<and> retry_delay b n \<le> max_interval b
   \<and> (exited p = None \<longrightarrow>
        exited (exec pf (onError_jobs (snd (manager_run b evs Established))) p) = None)"
proof -
  have M: "\<not> check_only e argv \<and> sshConnectionConfigFromEnv pf e = Inr (cfg, url) \<longrightarrow>
      main pf e argv r SshConnected =
        ([LogDebugSshConfig (sshConfigLogObject pf cfg), NewDocker ''/var/run/docker.sock'',
          CreateDockerClient 500, CreateSshClient cfg, LogInfoConnected url,
          ListenToContainers, CreateWebServer, Listen (js_nullish (e ''PORT'') ''3000'')],
         Running)
      \<and> main pf e argv r (SshOnError err) =
        ([LogDebugSshConfig (sshConfigLogObject pf cfg), NewDocker ''/var/run/docker.sock'',
          CreateDockerClient 500, CreateSshClient cfg, LogError err],
         Exit 1)
      \<and> main pf e argv r (SshRejected err) =
        ([LogDebugSshConfig (sshConfigLogObject pf cfg), NewDocker ''/var/run/docker.sock'',
          CreateDockerClient 500, CreateSshClient cfg],
         UnhandledRejection err)
      \<and> (snd (main pf e argv r c) = Running \<longleftrightarrow> c = SshConnected)"
  proof
    assume "\<not> check_only e argv \<and> sshConnectionConfigFromEnv pf e = Inr (cfg, url)"
    then have a: "\<not> check_only e argv" "sshConnectionConfigFromEnv pf e = Inr (cfg, url)"
      by simp_all
    from main_steady(1) [OF a] main_steady(2) [OF a] main_steady(3) [OF a] main_steady(4) [OF a]
    show "main pf e argv r SshConnected =
        ([LogDebugSshConfig (sshConfigLogObject pf cfg), NewDocker ''/var/run/docker.sock'',
          CreateDockerClient 500, CreateSshClient cfg, LogInfoConnected url,
          ListenToContainers, CreateWebServer, Listen (js_nullish (e ''PORT'') ''3000'')],
         Running)
      \<and> main pf e argv r (SshOnError err) =
        ([LogDebugSshConfig (sshConfigLogObject pf cfg), NewDocker ''/var/run/docker.sock'',
          CreateDockerClient 500, CreateSshClient cfg, LogError err],
         Exit 1)
      \<and> main pf e argv r (SshRejected err) =
        ([LogDebugSshConfig (sshConfigLogObject pf cfg), NewDocker ''/var/run/docker.sock'',
          CreateDockerClient 500, CreateSshClient cfg],
         UnhandledRejection err)
      \<and> (snd (main pf e argv r c) = Running \<longleftrightarrow> c = SshConnected)"
      by blast
  qed
  have S: "exited p = None \<longrightarrow>
        exited (step pf (SshClientError err) p) = Some 1
        \<and> logged (step pf (SshClientError err) p) = logged p @ [err]"
    by (simp add: step_def)
  have A: "exited p = None \<longrightarrow>
        (exited (exec pf js p) = None \<longleftrightarrow> (\<forall>j \<in> set js. \<not> is_exit_job j))
        \<and> (exited (exec pf js p) = None \<or> exited (exec pf js p) = Some 1)"
    using alive_exec [of p pf js] by blast
  have I: "manager_run b [HandshakeOk] Connecting = (Established, [])"
    "manager_run b [HandshakeFailed err] Connecting = (Closed, [CallOnError err])"
    by simp_all
  have F: "exited p = None \<longrightarrow>
        exited (exec pf (onError_jobs (snd (manager_run b [HandshakeFailed err] Connecting))) p)
          = Some 1"
    by (simp add: step_def)
  have C1: "fst (manager_run b evs Established) \<noteq> Closed"
    "fst (manager_run b evs Established) \<noteq> Connecting"
    using manager_run_connected [of Established b evs] by blast+
  have nojobs: "onError_jobs (snd (manager_run b evs Established)) = ([] :: 's job list)"
    by (rule manager_run_no_onError) simp_all
  have C2: "\<forall>err'. CallOnError err' \<notin> set (snd (manager_run b evs Established))"
  proof (intro allI notI)
    fix err'
    assume "CallOnError err' \<in> set (snd (manager_run b evs Established))"
    then obtain xs ys where "snd (manager_run b evs Established) = xs @ CallOnError err' # ys"
      by (auto simp: in_set_conv_decomp)
    then have "onError_jobs (snd (manager_run b evs Established))
        = (onError_jobs xs @ SshClientError err' # onError_jobs ys :: unit job list)"
      by (simp add: onError_jobs_append)
    moreover have "onError_jobs (snd (manager_run b evs Established)) = ([] :: unit job list)"
      by (rule manager_run_no_onError) simp_all
    ultimately show False by simp
  qed
  have D: "exited p = None \<and> (\<forall>j \<in> set js. \<not> is_exit_job j) \<longrightarrow>
        exited (exec pf (js @ onError_jobs (snd (manager_run b evs Established))) p) = None"
    using alive_exec [of p pf js] by (simp add: nojobs)
  have R1: "fst (manager_run b evs Established) = Established \<longrightarrow>
        manager_run b (evs @ [Disconnected]) Established
          = (Reconnecting 0,
             snd (manager_run b evs Established) @ [ScheduleReconnect (retry_delay b 0)])"
    by (simp add: manager_run_append)
  have R2: "fst (manager_run b evs Established) = Reconnecting m \<longrightarrow>
        manager_run b (evs @ [HandshakeFailed err]) Established
          = (Reconnecting (Suc m),
             snd (manager_run b evs Established) @ [ScheduleReconnect (retry_delay b (Suc m))])
        \<and> manager_run b (evs @ [HandshakeOk]) Established
          = (Established, snd (manager_run b evs Established))"
    by (simp add: manager_run_append)
  have O: "manager_step b (HandshakeFailed err) Connecting = (Closed, [CallOnError err])"
    "manager_step b Disconnected Established
        = (Reconnecting 0, [ScheduleReconnect (retry_delay b 0)])"
    "manager_run b (replicate n (HandshakeFailed err)) (Reconnecting 0)
        = (Reconnecting n, map (\<lambda>i. ScheduleReconnect (retry_delay b (Suc i))) [0..<n])"
    "retry_delay b n = min (max_interval b) (base_delay b * 2 ^ n + jitter b n)"
    "retry_delay b n \<le> max_interval b"
    using manager_retries [of b n err 0] by (simp_all add: retry_delay_def)
  have Z: "exited p = None \<longrightarrow>
        exited (exec pf (onError_jobs (snd (manager_run b evs Established))) p) = None"
    by (simp add: nojobs)
  from M S A I F C1 C2 D R1 R2 O Z show ?thesis
    by blast
qed

theorem initial_connection_failure_fatal_disconnect_not_witness:
  "\<not> check_only example_env [''node'', ''main.js'']
   \<and> sshConnectionConfigFromEnv example_platform example_env
        = Inr (example_config, ''ssh://h:22'')
   \<and> main example_platform example_env [''node'', ''main.js'']
        \<lparr>unverifiedHostKey = None, error = None, rest = ()\<rparr>
        (SshOnError (example_error ''refused''))
        = ([LogDebugSshConfig (sshConfigLogObject example_platform example_config),
            NewDocker ''/var/run/docker.sock'', CreateDockerClient 500,
            CreateSshClient example_config, LogError (example_error ''refused'')],
           Exit 1)
   \<and> snd (main example_platform example_env [''node'', ''main.js'']
        \<lparr>unverifiedHostKey = None, error = None, rest = ()\<rparr> SshConnected) = Running
   \<and> exited (init_proc :: string proc) = None
   \<and> exited (step example_platform (SshClientError (example_error ''refused''))
        (init_proc :: string proc)) = Some 1
   \<and> fst (manager_run example_backoff
        [Disconnected, HandshakeFailed (example_error ''refused'')] Established) = Reconnecting 1
   \<and> manager_run example_backoff
        ([Disconnected, HandshakeFailed (example_error ''refused'')]
           @ [HandshakeFailed (example_error ''refused'')]) Established
        = (Reconnecting 2, [ScheduleReconnect 1, ScheduleReconnect 2, ScheduleReconnect 4])
   \<and> exited (exec example_platform
        (onError_jobs (snd (manager_run example_backoff
           [Disconnected, HandshakeFailed (example_error ''refused'')] Established)))
        (init_proc :: string proc)) = None"
proof -
  let ?argv = "[''node'', ''main.js'']"
  let ?r = "\<lparr>unverifiedHostKey = None, error = None, rest = ()\<rparr>"
  let ?err = "example_error ''refused''"
  let ?evs = "[Disconnected, HandshakeFailed ?err]"
  have h1: "\<not> check_only example_env ?argv"
    by (simp add: check_only_def truthy_def example_env_def)
  have h2: "exited (init_proc :: string proc) = None"
    by (simp add: init_proc_def)
  have h3: "fst (manager_run example_backoff ?evs Established) = Reconnecting 1"
    by simp
  have d: "snd (manager_run example_backoff ?evs Established)
             @ [ScheduleReconnect (retry_delay example_backoff (Suc 1))]
           = [ScheduleReconnect 1, ScheduleReconnect 2, ScheduleReconnect 4]"
    by (simp add: retry_delay_def example_backoff_def)
  note t = initial_connection_failure_fatal_disconnect_not
    [where pf = example_platform and e = example_env and argv = ?argv and cfg = example_config
       and url = "''ssh://h:22''" and r = ?r and err = ?err and c = SshConnected
       and p = "init_proc :: string proc" and js = "[]" and b = example_backoff
       and evs = ?evs and m = 1 and n = 0]
  from t h1 example_config_from_env
  have 1: "main example_platform example_env ?argv ?r (SshOnError ?err)
        = ([LogDebugSshConfig (sshConfigLogObject example_platform example_config),
            NewDocker ''/var/run/docker.sock'', CreateDockerClient 500,
            CreateSshClient example_config, LogError ?err],
           Exit 1)"
    and 2: "snd (main example_platform example_env ?argv ?r SshConnected) = Running"
    by simp_all
  from t h2 have 3: "exited (step example_platform (SshClientError ?err)
        (init_proc :: string proc)) = Some 1"
    and 5: "exited (exec example_platform
        (onError_jobs (snd (manager_run example_backoff ?evs Established)))
        (init_proc :: string proc)) = None"
    by blast+
  from t h3 have "manager_run example_backoff (?evs @ [HandshakeFailed ?err]) Established
        = (Reconnecting (Suc 1),
           snd (manager_run example_backoff ?evs Established)
             @ [ScheduleReconnect (retry_delay example_backoff (Suc 1))])"
    by blast
  with d have 4: "manager_run example_backoff (?evs @ [HandshakeFailed ?err]) Established
        = (Reconnecting 2, [ScheduleReconnect 1, ScheduleReconnect 2, ScheduleReconnect 4])"
    by simp
  from h1 example_config_from_env 1 2 h2 3 h3 4 5 show ?thesis
    by blast
qed

end
